theory Spec2Isabelle
  imports Complex_Main "HOL-Library.Word"
begin

section \<open>Bytes, typed arrays and the random source\<close>

text \<open>
  The client code of La Ruleta de la Pobla works on \<open>Uint8Array\<close> and \<open>Uint32Array\<close>
  buffers. A \<open>Uint8Array\<close> is a list of 8-bit words of fixed length, created filled
  with zeros. The platform's random source \<open>crypto.getRandomValues\<close> is a parameter:
  a function giving the element written at each index of the buffer it fills.
\<close>

type_synonym byte = "8 word"
type_synonym u32 = "32 word"

datatype js_error = RangeError | JsError string

definition Uint8Array_new :: "nat \<Rightarrow> byte list" where
  "Uint8Array_new n = replicate n 0"

text \<open>\<open>target.set(source, offset)\<close>: copies \<open>source\<close> into \<open>target\<close> from
  \<open>offset\<close> on; a source that does not fit raises \<open>RangeError\<close>.\<close>

definition typed_set :: "byte list \<Rightarrow> byte list \<Rightarrow> nat \<Rightarrow> js_error + byte list" where
  "typed_set target source offset =
     (if length target < offset + length source then Inl RangeError
      else Inr (take offset target @ source @ drop (offset + length source) target))"

text \<open>\<open>target[i] = v\<close> on a \<open>Uint8Array\<close>: the number is converted modulo 256
  (\<open>ToUint8\<close>); a write outside the array is ignored.\<close>

definition typed_put :: "byte list \<Rightarrow> nat \<Rightarrow> int \<Rightarrow> byte list" where
  "typed_put target i v = (if i < length target then target[i := word_of_int v] else target)"

text \<open>\<open>crypto.getRandomValues(buffer)\<close> overwrites every element of the buffer.\<close>

definition getRandomValues :: "(nat \<Rightarrow> 'a) \<Rightarrow> 'a list \<Rightarrow> 'a list" where
  "getRandomValues rnd buffer = map rnd [0..<length buffer]"

section \<open>ZkMafiaService: client-side crypto helpers\<close>


text \<open>
  \<open>computeBulletCommitment(salt, position)\<close>: a 33-byte preimage, the salt copied to its
  start, the position stored at index 32, then the platform's SHA-256
  (\<open>crypto.subtle.digest\<close>), which is the parameter \<open>sha256\<close>.
\<close>

definition computeBulletCommitment ::
  "(byte list \<Rightarrow> byte list) \<Rightarrow> byte list \<Rightarrow> int \<Rightarrow> js_error + byte list" where
  "computeBulletCommitment sha256 salt position =
     (case typed_set (Uint8Array_new (32 + 1)) salt 0 of
        Inl e \<Rightarrow> Inl e
      | Inr preimage \<Rightarrow> Inr (sha256 (typed_put preimage 32 position)))"

text \<open>
  Modelled from the spec: the contract's commitment primitive \<open>commit\<close> (the on-chain
  \<open>compute_bullet_hash\<close>), whose Rust source is not part of the sources at hand.
  The spec: \<open>commit(secret: bytes, value: u32) -> digest\<close>, computed as a cryptographic
  hash of \<open>secret \<parallel> value_as_single_byte\<close>.
\<close>

definition commit :: "(byte list \<Rightarrow> byte list) \<Rightarrow> byte list \<Rightarrow> u32 \<Rightarrow> byte list" where
  "commit sha256 secret v = sha256 (secret @ [ucast v])"

text \<open>
  \<open>generateZkProof\<close>: 32 random bytes; when every byte is zero the first one is set to 1.
\<close>

definition generateZkProof :: "(nat \<Rightarrow> byte) \<Rightarrow> byte list" where
  "generateZkProof rnd =
     (let proof = getRandomValues rnd (Uint8Array_new 32)
      in if list_all (\<lambda>b. b = 0) proof then typed_put proof 0 1 else proof)"

section \<open>Session identifiers\<close>

text \<open>
  \<open>createRandomSessionId\<close> (number-guess and dice-duel components). With the platform's
  \<open>crypto\<close> present it fills a one-element \<open>Uint32Array\<close> until the element is not 0;
  \<open>rng i\<close> is what the \<open>i\<close>-th call of \<open>crypto.getRandomValues\<close> writes. The loop may
  run forever, so it is a partial function: \<open>None\<close> is "never returns". Without
  \<open>crypto\<close> the result is \<open>(Math.floor(Math.random() * 0xffffffff) >>> 0) || 1\<close>, with
  \<open>random\<close> the value of \<open>Math.random()\<close>. The product there is the platform's product of
  two doubles, rounded as IEEE 754 prescribes; it is the parameter \<open>fmul\<close>. A double is
  a rational number, so the floor of the product is exact.
\<close>

partial_function (option) createRandomSessionId_loop ::
  "(nat \<Rightarrow> nat \<Rightarrow> u32) \<Rightarrow> u32 list \<Rightarrow> u32 \<Rightarrow> nat \<Rightarrow> u32 option" where
  "createRandomSessionId_loop rng buffer v i =
     (if v = 0
      then (let buffer' = getRandomValues (rng i) buffer
            in createRandomSessionId_loop rng buffer' (buffer' ! 0) (Suc i))
      else Some v)"

declare createRandomSessionId_loop.simps [code]

text \<open>\<open>x >>> 0\<close>: the integer \<open>x\<close> modulo \<open>2^32\<close>.\<close>

definition ToUint32 :: "int \<Rightarrow> int" where
  "ToUint32 n = n mod 2 ^ 32"

definition createRandomSessionId ::
  "(nat \<Rightarrow> nat \<Rightarrow> u32) option \<Rightarrow> (real \<Rightarrow> real \<Rightarrow> real) \<Rightarrow> real \<Rightarrow> int option" where
  "createRandomSessionId crypto fmul random =
     (case crypto of
        Some rng \<Rightarrow> map_option uint (createRandomSessionId_loop rng (replicate 1 0) 0 0)
      | None \<Rightarrow>
          (let n = ToUint32 \<lfloor>fmul random 4294967295\<rfloor>
           in Some (if n = 0 then 1 else n)))"

text \<open>
  \<open>getInitialSessionId\<close> (roulette component): the \<open>session\<close> parameter of the URL when
  it is non-empty and converts to a number (\<open>Number\<close>, the platform's conversion, is a
  parameter); otherwise one random \<open>u32\<close>, replaced by 1 when it is 0.
\<close>

datatype js_number = NaN | Infinity | NegInfinity | Finite real

definition getInitialSessionId ::
  "string option \<Rightarrow> (string \<Rightarrow> js_number) \<Rightarrow> (nat \<Rightarrow> u32) \<Rightarrow> js_number" where
  "getInitialSessionId fromUrl Number rnd =
     (if fromUrl \<noteq> None \<and> fromUrl \<noteq> Some [] \<and> Number (the fromUrl) \<noteq> NaN
      then Number (the fromUrl)
      else (let buf = getRandomValues rnd (replicate 1 0)
            in Finite (of_int (if buf ! 0 = 0 then 1 else uint (buf ! 0)))))"

section \<open>Points amounts typed by the user\<close>

text \<open>
  \<open>parsePoints\<close> (number-guess and dice-duel components) turns the text of a points
  field into an amount with seven decimal places. Strings are lists of characters;
  \<open>\d\<close> in the pattern \<open>/[^\d.]/g\<close> is an ASCII digit.
\<close>

definition is_digit :: "char \<Rightarrow> bool" where
  "is_digit c = (c \<in> set ''0123456789'')"

definition digit_value :: "char \<Rightarrow> nat" where
  "digit_value c = of_char c - 48"

text \<open>The number a string of decimal digits denotes, leading zeros allowed.\<close>

definition digits_value :: "string \<Rightarrow> nat" where
  "digits_value s = foldl (\<lambda>a c. 10 * a + digit_value c) 0 s"

text \<open>\<open>value.replace(/[^\d.]/g, '')\<close>: every character but digits and dots is removed.\<close>

definition strip_non_numeric :: "string \<Rightarrow> string" where
  "strip_non_numeric v = filter (\<lambda>c. is_digit c \<or> c = CHR ''.'') v"

text \<open>\<open>s.split(sep)\<close> for a one-character separator: the pieces between the separators,
  at least one piece.\<close>

fun split_on :: "char \<Rightarrow> string \<Rightarrow> string list" where
  "split_on sep [] = [[]]"
| "split_on sep (c # cs) =
     (if c = sep then [] # split_on sep cs
      else (case split_on sep cs of
              [] \<Rightarrow> [[c]]
            | p # ps \<Rightarrow> (c # p) # ps))"

text \<open>\<open>s.padEnd(n, c)\<close>; \<open>s.slice(0, n)\<close> is \<open>take n s\<close>.\<close>

definition padEnd :: "nat \<Rightarrow> char \<Rightarrow> string \<Rightarrow> string" where
  "padEnd n c s = s @ replicate (n - length s) c"

text \<open>
  \<open>BigInt(s)\<close> on the strings that can reach it here: the empty string is \<open>0n\<close>, decimal
  digits with an optional sign are the number they denote, anything else raises
  \<open>SyntaxError\<close>. (Literals with a radix prefix or surrounding white space contain
  characters that the cleaning has removed.)
\<close>

definition BigInt :: "string \<Rightarrow> js_error + int" where
  "BigInt s =
     (case s of
        [] \<Rightarrow> Inr 0
      | c # cs \<Rightarrow>
          if c = CHR ''-'' \<and> cs \<noteq> [] \<and> list_all is_digit cs then Inr (- int (digits_value cs))
          else if c = CHR ''+'' \<and> cs \<noteq> [] \<and> list_all is_digit cs then Inr (int (digits_value cs))
          else if list_all is_digit s then Inr (int (digits_value s))
          else Inl (JsError ''SyntaxError''))"

definition POINTS_DECIMALS :: nat where
  "POINTS_DECIMALS = 7"

text \<open>
  \<open>parsePoints\<close>: \<open>null\<close> is \<open>None\<close>. The destructuring
  \<open>[whole = '0', fraction = '']\<close> takes the first two pieces, with the defaults for a piece
  that is absent; any exception ends in \<open>null\<close>.
\<close>

definition parsePoints :: "string \<Rightarrow> int option" where
  "parsePoints v =
     (let cleaned = strip_non_numeric v
      in if cleaned = [] \<or> cleaned = ''.'' then None
         else (let parts = split_on CHR ''.'' cleaned;
                   whole = (case parts of [] \<Rightarrow> ''0'' | w # _ \<Rightarrow> w);
                   fraction = (case parts of _ # f # _ \<Rightarrow> f | _ \<Rightarrow> []);
                   paddedFraction = take POINTS_DECIMALS (padEnd POINTS_DECIMALS CHR ''0'' fraction)
               in (case BigInt (whole @ paddedFraction) of
                     Inl e \<Rightarrow> None
                   | Inr n \<Rightarrow> Some n)))"

text \<open>
  The value of the decimal numeral \<open>whole.fraction\<close>, as a rational number: what the
  amount is compared with. \<open>whole_part\<close> and \<open>fraction_part\<close> name the two pieces that
  \<open>parsePoints\<close> reads from the cleaned text.
\<close>

definition decimal_value :: "string \<Rightarrow> string \<Rightarrow> rat" where
  "decimal_value whole fraction =
     of_nat (digits_value whole) + of_nat (digits_value fraction) / 10 ^ length fraction"

definition whole_part :: "string \<Rightarrow> string" where
  "whole_part cleaned = (case split_on CHR ''.'' cleaned of [] \<Rightarrow> ''0'' | w # _ \<Rightarrow> w)"

definition fraction_part :: "string \<Rightarrow> string" where
  "fraction_part cleaned = (case split_on CHR ''.'' cleaned of _ # f # _ \<Rightarrow> f | _ \<Rightarrow> [])"

section \<open>The roulette contract's interface\<close>

text \<open>
  The generated bindings of the contract: its error codes, the player and session
  records, and the calls a client can submit. \<open>u32\<close> fields are 32-bit words, the
  \<open>i128\<close> points are integers, addresses are strings.
\<close>

datatype contract_error =
    GameNotFound | NotPlayer | WrongPhase | NotYourTurn | GameAlreadyEnded | LobbyFull
  | AlreadyJoined | PlayerEliminated | InvalidProof | InvalidChamber | NotEnoughPlayers
  | AlreadyStarted

record Jugador =
  address :: string
  is_alive :: bool
  points :: int

record PartidaRuleta =
  bullet_commitment :: "byte list"
  bullet_position :: u32
  current_chamber :: u32
  current_turn :: u32
  eliminated :: "string list"
  hub_player1 :: string
  hub_player2 :: string
  phase :: u32
  players :: "Jugador list"
  session_id :: u32
  shots_fired :: u32
  winner :: "string option"

definition PHASE_WAITING :: u32 where "PHASE_WAITING = 0"
definition PHASE_PLAYING :: u32 where "PHASE_PLAYING = 1"
definition PHASE_FINISHED :: u32 where "PHASE_FINISHED = 2"

text \<open>The arguments of the three state-changing calls, as the client submits them.\<close>

datatype contract_call =
    Entrar_a_la_ruleta u32 string int
  | Cargar_revolver u32 string "byte list" int
  | Disparar u32 string "byte list"

section \<open>ZkMafiaService: reads and transactions\<close>

text \<open>
  A read builds the call, simulates it and inspects the \<open>Result\<close>. Either some step
  throws, or the simulation delivers the contract's \<open>Result\<close>: an error code or a value.
\<close>

datatype 'a simulation = Threw string | Simulated "contract_error + 'a"

text \<open>\<open>getGame\<close>: the record when the result is \<open>Ok\<close>, \<open>null\<close> otherwise and on every
  exception.\<close>

definition getGame :: "PartidaRuleta simulation \<Rightarrow> PartidaRuleta option" where
  "getGame sim =
     (case sim of
        Threw e \<Rightarrow> None
      | Simulated result \<Rightarrow> (case result of Inr g \<Rightarrow> Some g | Inl e \<Rightarrow> None))"

text \<open>\<open>whoIsAlive\<close>: the list when the result is \<open>Ok\<close>, the empty list otherwise and on
  every exception.\<close>

definition whoIsAlive :: "string list simulation \<Rightarrow> string list" where
  "whoIsAlive sim =
     (case sim of
        Threw e \<Rightarrow> []
      | Simulated result \<Rightarrow> (case result of Inr addrs \<Rightarrow> addrs | Inl e \<Rightarrow> []))"


text \<open>The transaction methods pass their arguments to the contract call of the same
  name; what they return here is the call that is signed and sent.\<close>

definition entrarALaRuleta :: "u32 \<Rightarrow> string \<Rightarrow> int \<Rightarrow> contract_call" where
  "entrarALaRuleta sessionId player pts = Entrar_a_la_ruleta sessionId player pts"


definition ZkMafiaService_disparar :: "u32 \<Rightarrow> string \<Rightarrow> byte list \<Rightarrow> contract_call" where
  "ZkMafiaService_disparar sessionId player zkProof = Disparar sessionId player zkProof"

section \<open>ZkMafiaGame: the handlers of the roulette component\<close>


text \<open>
  \<open>handleDisparar\<close>: nothing without a loaded game; otherwise the outcome is computed from
  the session record last read and shown (\<open>playTensionSequence\<close>), then the wallet's signer
  is asked for and the shot is submitted. The result is \<open>isHit\<close> and the call sent, or the
  error of \<open>getContractSigner\<close>.
\<close>

definition handleDisparar ::
  "PartidaRuleta option \<Rightarrow> (nat \<Rightarrow> byte) \<Rightarrow> u32 \<Rightarrow> string \<Rightarrow> js_error + unit
     \<Rightarrow> (bool \<times> (js_error + contract_call)) option" where
  "handleDisparar game rnd sessionId userAddress getContractSigner =
     (case game of
        None \<Rightarrow> None
      | Some g \<Rightarrow>
          (let currentChamber = current_chamber g;
               bp = bullet_position g;
               isHit = (currentChamber = bp);
               zkProof = generateZkProof rnd
           in Some (isHit,
                case getContractSigner of
                  Inl e \<Rightarrow> Inl e
                | Inr signer \<Rightarrow> Inr (ZkMafiaService_disparar sessionId userAddress zkProof))))"

text \<open>
  \<open>createBotSigner\<close> for bot player 2 or 3: without a configured secret it throws, naming
  the bot; otherwise the signer's address is the public key of the secret
  (\<open>Keypair.fromSecret\<close>, the parameter \<open>fromSecret\<close>, which throws on a malformed secret).
\<close>

datatype bot_player = Bot2 | Bot3

definition bot_number :: "bot_player \<Rightarrow> string" where
  "bot_number playerNumber = (case playerNumber of Bot2 \<Rightarrow> ''2'' | Bot3 \<Rightarrow> ''3'')"

definition createBotSigner ::
  "(bot_player \<Rightarrow> string) \<Rightarrow> (string \<Rightarrow> js_error + string) \<Rightarrow> bot_player \<Rightarrow> js_error + string" where
  "createBotSigner BOT_SECRETS fromSecret playerNumber =
     (let secret = BOT_SECRETS playerNumber
      in if secret = []
         then Inl (JsError (''Bot player '' @ bot_number playerNumber @ '' secret not available''))
         else fromSecret secret)"

text \<open>
  \<open>handleBotShot\<close>: nothing without a loaded game or when the turn index points at no
  player. Otherwise the outcome is computed from the session record and shown
  (\<open>playTensionSequence\<close>) before the bot's signer is created; then the shot is submitted
  in the bot's name, or the error of \<open>createBotSigner\<close> is reported. The result is the
  outcome shown and the call sent or the error.
\<close>

definition handleBotShot ::
  "PartidaRuleta option \<Rightarrow> (nat \<Rightarrow> byte) \<Rightarrow> u32 \<Rightarrow> (bot_player \<Rightarrow> string)
     \<Rightarrow> (string \<Rightarrow> js_error + string) \<Rightarrow> (bool \<times> (js_error + contract_call)) option" where
  "handleBotShot game rnd sessionId BOT_SECRETS fromSecret =
     (case game of
        None \<Rightarrow> None
      | Some g \<Rightarrow>
          (let turnIdx = unat (current_turn g)
           in if length (players g) \<le> turnIdx then None
              else (let currentChamber = current_chamber g;
                        bp = bullet_position g;
                        isHit = (currentChamber = bp);
                        zkProof = generateZkProof rnd;
                        botPlayerNum = (if turnIdx = 1 then Bot2 else Bot3)
                    in Some (isHit,
                         case createBotSigner BOT_SECRETS fromSecret botPlayerNum of
                           Inl e \<Rightarrow> Inl e
                         | Inr botAddr \<Rightarrow>
                             Inr (ZkMafiaService_disparar sessionId botAddr zkProof)))))"

section \<open>The contract's fire action\<close>

text \<open>
  Modelled from the spec: the contract call \<open>disparar\<close>, whose Rust source
  (\<open>contracts/zk-mafia/src/lib.rs\<close>) is not part of the sources at hand. The spec: each
  alive player in turn order fires, advancing a shared chamber counter; firing chamber
  equal to the bullet chamber means that the firer is eliminated; the last player alive
  wins; after an elimination with at least two players still alive a new bullet chamber
  is derived as \<open>hash(session_id \<parallel> shots_fired_so_far) mod 6\<close> and play continues. A call
  is rejected when the session is unknown, the game has concluded or is not active, the
  caller is not a registered player, is eliminated or is not the player whose turn it is,
  and when the proof is all zero; a counter that would overflow fails the call
  (\<open>Trap\<close>) instead of wrapping. The winner is set in the call that moves the phase to
  finished. Two things the spec leaves open are parameters: \<open>hash\<close>, the digest of session
  id and shot count read as a number, and \<open>reload\<close>, what becomes of the chamber counter
  when the cylinder is reloaded.
\<close>

datatype failure = Error contract_error | Trap

definition alive :: "Jugador list \<Rightarrow> Jugador list" where
  "alive ps = filter is_alive ps"

definition eliminate :: "string \<Rightarrow> Jugador list \<Rightarrow> Jugador list" where
  "eliminate a ps = map (\<lambda>p. if address p = a then p\<lparr>is_alive := False\<rparr> else p) ps"

fun next_alive :: "Jugador list \<Rightarrow> nat \<Rightarrow> nat \<Rightarrow> nat" where
  "next_alive ps i 0 = i"
| "next_alive ps i (Suc k) =
     (let j = (i + 1) mod length ps
      in if is_alive (ps ! j) then j else next_alive ps j k)"

text \<open>The reason a fire action is rejected, if any.\<close>

definition rejection :: "PartidaRuleta \<Rightarrow> string \<Rightarrow> byte list \<Rightarrow> failure option" where
  "rejection g player zk_proof =
     (if phase g = PHASE_FINISHED then Some (Error GameAlreadyEnded)
      else if phase g \<noteq> PHASE_PLAYING then Some (Error WrongPhase)
      else (case find (\<lambda>p. address p = player) (players g) of
              None \<Rightarrow> Some (Error NotPlayer)
            | Some me \<Rightarrow>
                if \<not> is_alive me then Some (Error PlayerEliminated)
                else if length (players g) \<le> unat (current_turn g) then Some (Error NotYourTurn)
                else if address (players g ! unat (current_turn g)) \<noteq> player
                  then Some (Error NotYourTurn)
                else if list_all (\<lambda>b. b = 0) zk_proof then Some (Error InvalidProof)
                else if shots_fired g = - 1 then Some Trap
                else if current_chamber g = - 1 then Some Trap
                else None))"

text \<open>Every accepted shot advances the chamber counter and the shot counter.\<close>

definition fired :: "PartidaRuleta \<Rightarrow> PartidaRuleta" where
  "fired g = g\<lparr>current_chamber := current_chamber g + 1, shots_fired := shots_fired g + 1\<rparr>"

text \<open>A miss: the turn passes to the next player alive.\<close>

definition survive :: "PartidaRuleta \<Rightarrow> PartidaRuleta" where
  "survive g =
     (fired g)\<lparr>current_turn :=
        of_nat (next_alive (players g) (unat (current_turn g)) (length (players g)))\<rparr>"

text \<open>A hit: the firer is eliminated; with two or more players left the cylinder is
  reloaded, otherwise the game is finished and the player left is the winner.\<close>

definition die :: "(u32 \<Rightarrow> u32 \<Rightarrow> nat) \<Rightarrow> (u32 \<Rightarrow> u32) \<Rightarrow> PartidaRuleta \<Rightarrow> string \<Rightarrow> PartidaRuleta" where
  "die hash reload g player =
     (let ps = eliminate player (players g);
          out = (fired g)\<lparr>players := ps, eliminated := eliminated g @ [player]\<rparr>
      in if 2 \<le> length (alive ps)
         then out\<lparr>bullet_position := of_nat (hash (session_id g) (shots_fired g + 1) mod 6),
                  current_chamber := reload (current_chamber g + 1),
                  current_turn := of_nat (next_alive ps (unat (current_turn g)) (length ps))\<rparr>
         else out\<lparr>phase := PHASE_FINISHED,
                  winner := (case alive ps of [] \<Rightarrow> None | w # _ \<Rightarrow> Some (address w))\<rparr>)"

definition disparar ::
  "(u32 \<Rightarrow> u32 \<Rightarrow> nat) \<Rightarrow> (u32 \<Rightarrow> u32) \<Rightarrow> PartidaRuleta option \<Rightarrow> string \<Rightarrow> byte list
     \<Rightarrow> failure + bool \<times> PartidaRuleta" where
  "disparar hash reload stored player zk_proof =
     (case stored of
        None \<Rightarrow> Inl (Error GameNotFound)
      | Some g \<Rightarrow>
          (case rejection g player zk_proof of
             Some f \<Rightarrow> Inl f
           | None \<Rightarrow>
               if current_chamber g = bullet_position g
               then Inr (True, die hash reload g player)
               else Inr (False, survive g)))"

text \<open>
  The scenario of the spec: three players, the bullet at chamber 2, nothing fired yet.
\<close>

definition jug :: "string \<Rightarrow> Jugador" where
  "jug a = \<lparr>address = a, is_alive = True, points = 0\<rparr>"

definition scenario_start :: PartidaRuleta where
  "scenario_start =
     \<lparr>bullet_commitment = replicate 32 1, bullet_position = 2, current_chamber = 0,
      current_turn = 0, eliminated = [], hub_player1 = ''A'', hub_player2 = ''B'',
      phase = 1, players = [jug ''A'', jug ''B'', jug ''C''], session_id = 9,
      shots_fired = 0, winner = None\<rparr>"

text \<open>The same session later: the third player is eliminated, the chamber about to be
  fired holds the bullet, and it is the first player's turn.\<close>

definition scenario_last_two :: PartidaRuleta where
  "scenario_last_two =
     \<lparr>bullet_commitment = replicate 32 1, bullet_position = 3, current_chamber = 3,
      current_turn = 0, eliminated = [''C''], hub_player1 = ''A'', hub_player2 = ''B'',
      phase = 1, players = [jug ''A'', jug ''B'', (jug ''C'')\<lparr>is_alive := False\<rparr>],
      session_id = 9, shots_fired = 3, winner = None\<rparr>"

section \<open>Importing a funding-handshake artifact\<close>

text \<open>
  The import side of the number-guess component (the dice-duel component has the same
  code with its own service). The component's state is a record of its React state, the
  \<open>actionLock\<close> ref and a log of the calls made to the wallet and the game service, in
  order. The session id held by the component is \<open>currentSessionId\<close>, to keep it apart
  from the field of the parsed artifact.
\<close>

datatype create_mode = CreateMode | ImportMode | LoadMode

datatype game_phase = PhaseCreate | PhaseGuess | PhaseReveal | PhaseComplete

record GameParams =
  sessionId :: int
  player1 :: string
  player1Points :: int

text \<open>A thrown value: an \<open>Error\<close> object with its message, or anything else.\<close>

datatype thrown = ErrorObject string | NonError

datatype service_call =
    ParseAuthEntry string
  | GetContractSigner
  | ImportAndSignAuthEntry string string int
  | FinalizeStartGame string string
  | LoadGameState
  | StandingsRefresh

text \<open>What the component reads of a game of the number-guess contract (the binding's
  \<open>Game\<close>): its winner and the two guesses, each present or not.\<close>

record Game =
  game_winner :: "string option"
  player1_guess :: "u32 option"
  player2_guess :: "u32 option"

record component =
  userAddress :: string
  createMode :: create_mode
  importAuthEntryXDR :: string
  importSessionId :: string
  importPlayer1 :: string
  importPlayer1Points :: string
  importPlayer2Points :: string
  xdrParsing :: bool
  xdrParseError :: "string option"
  xdrParseSuccess :: bool
  loading :: bool
  quickstartLoading :: bool
  actionLock :: bool
  error :: "string option"
  success :: "string option"
  currentSessionId :: int
  gameState :: "Game option"
  gamePhase :: game_phase
  calls :: "service_call list"

text \<open>
  What the component calls and does not define: the game service's \<open>parseAuthEntry\<close>,
  \<open>importAndSignAuthEntry\<close>, \<open>finalizeStartGame\<close> and \<open>getGame\<close> (here
  \<open>service_getGame\<close>, which answers a game or \<open>null\<close>), the wallet's
  \<open>getContractSigner\<close>, and the formatting of numbers for display. Each either returns
  or throws.
\<close>

record services =
  parseAuthEntry :: "string \<Rightarrow> thrown + GameParams"
  getContractSigner :: "thrown + unit"
  importAndSignAuthEntry :: "string \<Rightarrow> string \<Rightarrow> int \<Rightarrow> thrown + string"
  finalizeStartGame :: "string \<Rightarrow> string \<Rightarrow> thrown + unit"
  service_getGame :: "int \<Rightarrow> thrown + Game option"
  showNumber :: "int \<Rightarrow> string"
  showPoints :: "int \<Rightarrow> string"

definition DEFAULT_POINTS :: string where
  "DEFAULT_POINTS = ''0.1''"

text \<open>
  \<open>s.trim()\<close>: white space and line terminators removed at both ends. A character here
  is a code unit below 256; of the white space of the language these are tab, line feed,
  vertical tab, form feed, carriage return, space and the no-break space \<open>U+00A0\<close> (the
  others, from \<open>U+1680\<close> to \<open>U+FEFF\<close>, lie beyond the character type).
\<close>

definition is_space :: "char \<Rightarrow> bool" where
  "is_space c =
     (c \<in> set [CHR '' '', CHR 0x09, CHR 0x0A, CHR 0x0B, CHR 0x0C, CHR 0x0D, CHR 0xA0])"

definition trim :: "string \<Rightarrow> string" where
  "trim s = rev (dropWhile is_space (rev (dropWhile is_space s)))"

text \<open>\<open>s.includes(pattern)\<close>.\<close>

fun string_includes :: "string \<Rightarrow> string \<Rightarrow> bool" where
  "string_includes [] pattern = (pattern = [])"
| "string_includes (c # cs) pattern =
     (take (length pattern) (c # cs) = pattern \<or> string_includes cs pattern)"

definition log_call :: "service_call \<Rightarrow> component \<Rightarrow> component" where
  "log_call c st = st\<lparr>calls := calls st @ [c]\<rparr>"

text \<open>
  The auto-parse effect, at the moment its debounced \<open>parseXDR\<close> runs: outside import mode
  or with an empty artifact nothing is parsed (an empty artifact resets the parse state);
  otherwise the artifact is parsed, the self-play check made, and the fields filled, or
  the error shown and the fields cleared.
\<close>

definition parseXDR_catch :: "thrown \<Rightarrow> component \<Rightarrow> component" where
  "parseXDR_catch err st =
     st\<lparr>xdrParseError :=
          Some (case err of ErrorObject m \<Rightarrow> m | NonError \<Rightarrow> ''Invalid auth entry XDR''),
        importSessionId := [], importPlayer1 := [], importPlayer1Points := []\<rparr>"

definition parseXDR :: "services \<Rightarrow> component \<Rightarrow> component" where
  "parseXDR sv st0 =
     (let st = log_call (ParseAuthEntry (trim (importAuthEntryXDR st0)))
                 (st0\<lparr>xdrParsing := True, xdrParseError := None, xdrParseSuccess := False\<rparr>);
          st' = (case parseAuthEntry sv (trim (importAuthEntryXDR st0)) of
                   Inl err \<Rightarrow> parseXDR_catch err st
                 | Inr gameParams \<Rightarrow>
                     if player1 gameParams = userAddress st
                     then parseXDR_catch (ErrorObject
                            ''You cannot play against yourself. This auth entry was created by you (Player 1).'')
                            st
                     else st\<lparr>importSessionId := showNumber sv (sessionId gameParams),
                             importPlayer1 := player1 gameParams,
                             importPlayer1Points := showPoints sv (player1Points gameParams),
                             xdrParseSuccess := True\<rparr>)
      in st'\<lparr>xdrParsing := False\<rparr>)"

definition autoParse :: "services \<Rightarrow> component \<Rightarrow> component" where
  "autoParse sv st =
     (if createMode st \<noteq> ImportMode \<or> trim (importAuthEntryXDR st) = []
      then (if trim (importAuthEntryXDR st) = []
            then st\<lparr>xdrParsing := False, xdrParseError := None, xdrParseSuccess := False,
                    importSessionId := [], importPlayer1 := [], importPlayer1Points := []\<rparr>
            else st)
      else parseXDR sv st)"

text \<open>\<open>runAction\<close>: nothing happens while the lock is held or the component is busy.\<close>

definition runAction :: "(component \<Rightarrow> component) \<Rightarrow> component \<Rightarrow> component" where
  "runAction action st =
     (if actionLock st \<or> loading st \<or> quickstartLoading st then st
      else (action (st\<lparr>actionLock := True\<rparr>))\<lparr>actionLock := False\<rparr>)"

text \<open>
  \<open>loadGameState\<close>: the game of the given session is fetched and stored, and the phase is
  set from it: complete with a winner, reveal with both guesses, guess otherwise; when
  the fetch throws, the stored game is cleared and the phase stays.
\<close>

definition loadGameState :: "services \<Rightarrow> int \<Rightarrow> component \<Rightarrow> component" where
  "loadGameState sv sid st0 =
     (let st = log_call LoadGameState st0
      in case service_getGame sv sid of
           Inl err \<Rightarrow> st\<lparr>gameState := None\<rparr>
         | Inr game \<Rightarrow>
             st\<lparr>gameState := game,
                gamePhase :=
                  (case game of
                     None \<Rightarrow> PhaseGuess
                   | Some g \<Rightarrow>
                       if game_winner g \<noteq> None then PhaseComplete
                       else if player1_guess g \<noteq> None \<and> player2_guess g \<noteq> None
                       then PhaseReveal
                       else PhaseGuess)\<rparr>)"

text \<open>
  The body of \<open>handleImportTransaction\<close> up to its first exception: the state reached and
  either the value thrown or normal completion. On success the state is updated, then
  \<open>loadGameState\<close> runs, with the session id of the render the handler belongs to (the one
  held before \<open>setSessionId\<close>), then the standings are refreshed.
\<close>

definition import_sign_submit ::
  "services \<Rightarrow> GameParams \<Rightarrow> int \<Rightarrow> component \<Rightarrow> component \<times> (thrown + unit)" where
  "import_sign_submit sv gameParams p2Points st =
     (let st1 = log_call GetContractSigner st
      in case getContractSigner sv of
           Inl err \<Rightarrow> (st1, Inl err)
         | Inr signer \<Rightarrow>
             (let xdr = trim (importAuthEntryXDR st);
                  st2 = log_call (ImportAndSignAuthEntry xdr (userAddress st) p2Points) st1
              in case importAndSignAuthEntry sv xdr (userAddress st) p2Points of
                   Inl err \<Rightarrow> (st2, Inl err)
                 | Inr fullySignedTxXDR \<Rightarrow>
                     (let st3 = log_call (FinalizeStartGame fullySignedTxXDR (userAddress st)) st2
                      in case finalizeStartGame sv fullySignedTxXDR (userAddress st) of
                           Inl err \<Rightarrow> (st3, Inl err)
                         | Inr done \<Rightarrow>
                             (log_call StandingsRefresh (loadGameState sv (currentSessionId st)
                                (st3\<lparr>currentSessionId := sessionId gameParams,
                                     success := Some ''Game created successfully! Both players signed.'',
                                     gamePhase := PhaseGuess,
                                     importAuthEntryXDR := [], importSessionId := [],
                                     importPlayer1 := [], importPlayer1Points := [],
                                     importPlayer2Points := DEFAULT_POINTS\<rparr>)),
                              Inr ()))))"

definition import_try :: "services \<Rightarrow> component \<Rightarrow> component \<times> (thrown + unit)" where
  "import_try sv st =
     (if trim (importAuthEntryXDR st) = []
      then (st, Inl (ErrorObject ''Enter auth entry XDR from Player 1''))
      else if trim (importPlayer2Points st) = []
      then (st, Inl (ErrorObject ''Enter your points amount (Player 2)''))
      else (case parsePoints (importPlayer2Points st) of
              None \<Rightarrow> (st, Inl (ErrorObject ''Invalid Player 2 points''))
            | Some p2Points \<Rightarrow>
                if p2Points \<le> 0 then (st, Inl (ErrorObject ''Invalid Player 2 points''))
                else
                  (let st1 = log_call (ParseAuthEntry (trim (importAuthEntryXDR st))) st
                   in case parseAuthEntry sv (trim (importAuthEntryXDR st)) of
                        Inl err \<Rightarrow> (st1, Inl err)
                      | Inr gameParams \<Rightarrow>
                          (let st2 = st1\<lparr>importSessionId := showNumber sv (sessionId gameParams),
                                         importPlayer1 := player1 gameParams,
                                         importPlayer1Points :=
                                           showPoints sv (player1Points gameParams)\<rparr>
                           in if player1 gameParams = userAddress st
                              then (st2, Inl (ErrorObject
                                ''Invalid game: You cannot play against yourself (you are Player 1 in this auth entry)''))
                              else if userAddress st = player1 gameParams
                              then (st2, Inl (ErrorObject
                                ''Cannot play against yourself. Player 2 must be different from Player 1.''))
                              else import_sign_submit sv gameParams p2Points st2))))"

text \<open>The \<open>catch\<close> of \<open>handleImportTransaction\<close>: the message shown.\<close>

definition import_error_message :: "thrown \<Rightarrow> string" where
  "import_error_message err =
     (case err of
        NonError \<Rightarrow> ''Failed to import and sign transaction''
      | ErrorObject m \<Rightarrow>
          if string_includes m ''simulation failed''
          then ''Simulation failed: '' @ m
               @ ''. Check that you have enough Points and the game parameters are correct.''
          else if string_includes m ''transaction failed''
          then ''Transaction failed: '' @ m
               @ ''. The game could not be created on the blockchain.''
          else m)"

definition import_action :: "services \<Rightarrow> component \<Rightarrow> component" where
  "import_action sv st0 =
     (let st = st0\<lparr>loading := True, error := None, success := None\<rparr>;
          st' = (case import_try sv st of
                   (st1, Inl err) \<Rightarrow> st1\<lparr>error := Some (import_error_message err)\<rparr>
                 | (st1, Inr done) \<Rightarrow> st1)
      in st'\<lparr>loading := False\<rparr>)"

definition handleImportTransaction :: "services \<Rightarrow> component \<Rightarrow> component" where
  "handleImportTransaction sv st = runAction (import_action sv) st"

text \<open>The calls that sign or submit.\<close>

fun signs_or_submits :: "service_call \<Rightarrow> bool" where
  "signs_or_submits GetContractSigner = True"
| "signs_or_submits (ImportAndSignAuthEntry x a p) = True"
| "signs_or_submits (FinalizeStartGame x a) = True"
| "signs_or_submits c = False"

text \<open>An import by the author of the artifact: Player 1's own address, a well-formed
  artifact, a valid stake.\<close>

definition own_artifact :: services where
  "own_artifact =
     \<lparr>parseAuthEntry = (\<lambda>xdr. Inr \<lparr>sessionId = 7, player1 = ''GALICE'', player1Points = 1000000\<rparr>),
      getContractSigner = Inr (),
      importAndSignAuthEntry = (\<lambda>xdr a p. Inr ''SIGNED''),
      finalizeStartGame = (\<lambda>tx a. Inr ()),
      service_getGame = (\<lambda>sid. Inr None),
      showNumber = (\<lambda>n. ''7''),
      showPoints = (\<lambda>n. ''0.1'')\<rparr>"

definition importing_own :: component where
  "importing_own =
     \<lparr>userAddress = ''GALICE'', createMode = ImportMode, importAuthEntryXDR = ''AAAA'',
      importSessionId = [], importPlayer1 = [], importPlayer1Points = [],
      importPlayer2Points = ''0.1'', xdrParsing = False, xdrParseError = None,
      xdrParseSuccess = False, loading = False, quickstartLoading = False,
      actionLock = False, error = None, success = None, currentSessionId = 42,
      gameState = None, gamePhase = PhaseCreate, calls = []\<rparr>"

text \<open>The message of the self-play check in \<open>handleImportTransaction\<close>.\<close>

definition self_play_message :: string where
  "self_play_message =
     ''Invalid game: You cannot play against yourself (you are Player 1 in this auth entry)''"

section \<open>Injecting Player 1's signed authorization\<close>

text \<open>
  \<open>injectSignedAuthEntry\<close> (\<open>authEntryUtils.ts\<close>). An authorization entry has credentials
  and an invocation. Credentials are those of the transaction's source account, or
  address credentials with an address and a signature; the address is \<open>None\<close> when
  \<open>Address.fromScAddress\<close> cannot turn it into a string and throws.
\<close>

datatype soroban_credentials =
    SorobanCredentialsSourceAccount
  | SorobanCredentialsAddress "string option" string

record SorobanAuthorizationEntry =
  credentials :: soroban_credentials
  rootInvocation :: string

text \<open>The assembled transaction: the auth entries of its simulation, when there are
  any, and the options read by the function.\<close>

record AssembledTransaction =
  simulation_auth :: "SorobanAuthorizationEntry list option"
  networkPassphrase :: string
  rpcUrl :: string

text \<open>The answer of a wallet's \<open>signAuthEntry\<close>, and Player 2's signer, which may lack
  that function.\<close>

record SignAuthEntryResult =
  signedAuthEntry :: string
  sign_error :: "string option"

record ContractSigner =
  signAuthEntry :: "(string \<Rightarrow> string \<Rightarrow> string \<Rightarrow> SignAuthEntryResult) option"

text \<open>
  What the SDK and the network provide: decoding an entry from base64 XDR, the SDK's
  \<open>authorizeEntry\<close> (given an entry, a signing callback on the preimage, the ledger until
  which the signature is valid and the network passphrase), and the latest ledger of the
  RPC server.
\<close>

record stellar_sdk =
  fromXDR :: "string \<Rightarrow> thrown + SorobanAuthorizationEntry"
  authorizeEntry :: "SorobanAuthorizationEntry \<Rightarrow> (string \<Rightarrow> thrown + string) \<Rightarrow> nat \<Rightarrow> string
                       \<Rightarrow> thrown + SorobanAuthorizationEntry"
  getLatestLedger :: "string \<Rightarrow> thrown + nat"

definition DEFAULT_AUTH_TTL_MINUTES :: nat where
  "DEFAULT_AUTH_TTL_MINUTES = 5"

text \<open>\<open>calculateValidUntilLedger\<close> (\<open>ledgerUtils.ts\<close>): twelve ledgers a minute.\<close>

definition calculateValidUntilLedger :: "stellar_sdk \<Rightarrow> string \<Rightarrow> nat \<Rightarrow> thrown + nat" where
  "calculateValidUntilLedger sdk url ttlMinutes =
     (case getLatestLedger sdk url of
        Inl err \<Rightarrow> Inl err
      | Inr latestLedger \<Rightarrow> Inr (latestLedger + ttlMinutes * 12))"

text \<open>The string of the address of an entry with address credentials.\<close>

definition entry_address :: "SorobanAuthorizationEntry \<Rightarrow> string option" where
  "entry_address entry =
     (case credentials entry of
        SorobanCredentialsSourceAccount \<Rightarrow> None
      | SorobanCredentialsAddress a sg \<Rightarrow> a)"

text \<open>
  The loop over the simulated entries and its three variables. An entry with source
  account credentials is skipped, one whose address cannot be read is skipped by the
  \<open>catch\<close>; an address equal to Player 1's sets the stub index, otherwise one equal to
  Player 2's sets Player 2's entry and index.
\<close>

record found =
  player1StubIndex :: int
  player2AuthEntry :: "SorobanAuthorizationEntry option"
  player2Index :: int

definition visit :: "string \<Rightarrow> string \<Rightarrow> SorobanAuthorizationEntry \<Rightarrow> nat \<Rightarrow> found \<Rightarrow> found" where
  "visit player1AddressString player2Address entry i s =
     (case credentials entry of
        SorobanCredentialsSourceAccount \<Rightarrow> s
      | SorobanCredentialsAddress a sg \<Rightarrow>
          (case a of
             None \<Rightarrow> s
           | Some entryAddressString \<Rightarrow>
               if entryAddressString = player1AddressString
               then s\<lparr>player1StubIndex := int i\<rparr>
               else if entryAddressString = player2Address
               then s\<lparr>player2AuthEntry := Some entry, player2Index := int i\<rparr>
               else s))"

fun find_entries ::
  "string \<Rightarrow> string \<Rightarrow> SorobanAuthorizationEntry list \<Rightarrow> nat \<Rightarrow> found \<Rightarrow> found" where
  "find_entries p1 p2 [] i s = s"
| "find_entries p1 p2 (entry # rest) i s = find_entries p1 p2 rest (Suc i) (visit p1 p2 entry i s)"

text \<open>The callback handed to \<open>authorizeEntry\<close>: Player 2's wallet signs the preimage.\<close>

definition sign_preimage :: "ContractSigner \<Rightarrow> string \<Rightarrow> string \<Rightarrow> string \<Rightarrow> thrown + string" where
  "sign_preimage player2Signer passphrase player2Address preimage =
     (case signAuthEntry player2Signer of
        None \<Rightarrow> Inl (ErrorObject ''Wallet does not support auth entry signing'')
      | Some sign \<Rightarrow>
          (let signResult = sign preimage passphrase player2Address
           in case sign_error signResult of
                Some m \<Rightarrow> Inl (ErrorObject (''Failed to sign auth entry: '' @ m))
              | None \<Rightarrow> Inr (signedAuthEntry signResult)))"

text \<open>\<open>validUntilLedgerSeq ?? (await calculateValidUntilLedger(...))\<close>.\<close>

definition authValidUntil :: "stellar_sdk \<Rightarrow> AssembledTransaction \<Rightarrow> nat option \<Rightarrow> thrown + nat" where
  "authValidUntil sdk tx validUntilLedgerSeq =
     (case validUntilLedgerSeq of
        Some v \<Rightarrow> Inr v
      | None \<Rightarrow> calculateValidUntilLedger sdk (rpcUrl tx) DEFAULT_AUTH_TTL_MINUTES)"

text \<open>
  The part after the stub has been replaced, on the array \<open>authEntries\<close> that the
  transaction holds: Player 2's entry is signed when one was found. The array is changed
  in place, so what it holds when an exception is thrown stays in the transaction.
\<close>

definition sign_player2 ::
  "stellar_sdk \<Rightarrow> AssembledTransaction \<Rightarrow> string \<Rightarrow> ContractSigner \<Rightarrow> nat option \<Rightarrow> found
     \<Rightarrow> SorobanAuthorizationEntry list \<Rightarrow> SorobanAuthorizationEntry list \<times> (thrown + unit)" where
  "sign_player2 sdk tx player2Address player2Signer validUntilLedgerSeq s authEntries =
     (case player2AuthEntry s of
        None \<Rightarrow> (authEntries, Inr ())
      | Some entry \<Rightarrow>
          if player2Index s = - 1 then (authEntries, Inr ())
          else if signAuthEntry player2Signer = None
          then (authEntries, Inl (ErrorObject ''signAuthEntry function not available''))
          else
            (case authValidUntil sdk tx validUntilLedgerSeq of
               Inl err \<Rightarrow> (authEntries, Inl err)
             | Inr authValidUntilLedgerSeq \<Rightarrow>
                 (case authorizeEntry sdk entry
                         (sign_preimage player2Signer (networkPassphrase tx) player2Address)
                         authValidUntilLedgerSeq (networkPassphrase tx) of
                    Inl err \<Rightarrow> (authEntries, Inl err)
                  | Inr player2SignedAuthEntry \<Rightarrow>
                      (authEntries[nat (player2Index s) := player2SignedAuthEntry], Inr ()))))"

text \<open>
  \<open>injectSignedAuthEntry\<close>: the transaction as the call leaves it, and whether the call
  returned or threw. Reading the address of Player 1's entry throws in the library when
  its credentials are not address credentials.
\<close>

definition injectSignedAuthEntry ::
  "stellar_sdk \<Rightarrow> AssembledTransaction \<Rightarrow> string \<Rightarrow> string \<Rightarrow> ContractSigner \<Rightarrow> nat option
     \<Rightarrow> AssembledTransaction \<times> (thrown + unit)" where
  "injectSignedAuthEntry sdk tx player1AuthEntryXDR player2Address player2Signer validUntilLedgerSeq =
     (case fromXDR sdk player1AuthEntryXDR of
        Inl err \<Rightarrow> (tx, Inl err)
      | Inr player1SignedAuthEntry \<Rightarrow>
          (case entry_address player1SignedAuthEntry of
             None \<Rightarrow> (tx, Inl (ErrorObject ''TypeError''))
           | Some player1AddressString \<Rightarrow>
               (case simulation_auth tx of
                  None \<Rightarrow>
                    (tx, Inl (ErrorObject ''No auth entries found in transaction simulation''))
                | Some authEntries \<Rightarrow>
                    (let s = find_entries player1AddressString player2Address authEntries 0
                               \<lparr>player1StubIndex = - 1, player2AuthEntry = None,
                                player2Index = - 1\<rparr>
                     in if player1StubIndex s = - 1
                        then (tx, Inl (ErrorObject
                                ''Could not find Player 1 stub entry in transaction''))
                        else
                          (case sign_player2 sdk tx player2Address player2Signer
                                  validUntilLedgerSeq s
                                  (authEntries[nat (player1StubIndex s) := player1SignedAuthEntry]) of
                             (authEntries', outcome) \<Rightarrow>
                               (tx\<lparr>simulation_auth := Some authEntries'\<rparr>, outcome))))))"

text \<open>The two tests of the loop, as predicates on an entry: Player 2's test is only
  reached when Player 1's has failed.\<close>

definition is_player1_entry :: "string \<Rightarrow> SorobanAuthorizationEntry \<Rightarrow> bool" where
  "is_player1_entry p1 entry = (entry_address entry = Some p1)"

definition is_player2_entry :: "string \<Rightarrow> string \<Rightarrow> SorobanAuthorizationEntry \<Rightarrow> bool" where
  "is_player2_entry p1 p2 entry = (entry_address entry = Some p2 \<and> p2 \<noteq> p1)"

text \<open>
  The position of the last element of a list that satisfies a predicate: the index a
  loop that overwrites its variable at every match ends with.
\<close>

fun last_index :: "('a \<Rightarrow> bool) \<Rightarrow> 'a list \<Rightarrow> nat option" where
  "last_index P [] = None"
| "last_index P (x # xs) =
     (case last_index P xs of
        Some j \<Rightarrow> Some (Suc j)
      | None \<Rightarrow> if P x then Some 0 else None)"

text \<open>
  A handshake to run the function on: the simulation lists the source account, Player 1's
  stub and Player 2's stub; Player 1's artifact decodes to an entry signed by Player 1;
  Player 2's wallet signs.
\<close>

definition stub :: "string \<Rightarrow> SorobanAuthorizationEntry" where
  "stub a = \<lparr>credentials = SorobanCredentialsAddress (Some a) [], rootInvocation = ''start_game''\<rparr>"

definition source_entry :: SorobanAuthorizationEntry where
  "source_entry = \<lparr>credentials = SorobanCredentialsSourceAccount, rootInvocation = ''start_game''\<rparr>"

definition player1_signed :: SorobanAuthorizationEntry where
  "player1_signed =
     \<lparr>credentials = SorobanCredentialsAddress (Some ''P1'') ''SIG1'', rootInvocation = ''start_game''\<rparr>"

definition handshake_sdk :: stellar_sdk where
  "handshake_sdk =
     \<lparr>fromXDR = (\<lambda>x. Inr player1_signed),
      authorizeEntry = (\<lambda>entry sign v passphrase.
         case sign ''PREIMAGE'' of
           Inl err \<Rightarrow> Inl err
         | Inr sg \<Rightarrow> Inr (entry\<lparr>credentials := SorobanCredentialsAddress (entry_address entry) sg\<rparr>)),
      getLatestLedger = (\<lambda>url. Inr 1000)\<rparr>"

definition handshake_tx :: "SorobanAuthorizationEntry list \<Rightarrow> AssembledTransaction" where
  "handshake_tx entries =
     \<lparr>simulation_auth = Some entries, networkPassphrase = ''Test SDF Network ; September 2015'',
      rpcUrl = ''https://soroban-testnet.stellar.org''\<rparr>"

definition player2_wallet :: ContractSigner where
  "player2_wallet =
     \<lparr>signAuthEntry = Some (\<lambda>preimage passphrase a.
         \<lparr>signedAuthEntry = ''SIG2'', sign_error = None\<rparr>)\<rparr>"

section \<open>Properties of the crypto helpers\<close>

lemma length_getRandomValues: "length (getRandomValues rnd buffer) = length buffer"
  by (simp add: getRandomValues_def)

lemma length_typed_put: "length (typed_put target i v) = length target"
  by (simp add: typed_put_def)

lemma typed_set_fits:
  "length salt = 32 \<Longrightarrow> typed_set (Uint8Array_new 33) salt 0 = Inr (salt @ [0])"
  by (simp add: typed_set_def Uint8Array_new_def)

lemma typed_put_last:
  assumes "length salt = 32"
  shows "typed_put (salt @ [0]) 32 v = salt @ [word_of_int v]"
proof -
  have "(salt @ [0 :: byte])[length salt := word_of_int v] = salt @ [word_of_int v]"
    by simp
  then show ?thesis
    using assms by (simp add: typed_put_def)
qed

text \<open>
  C2. For every 32-byte salt and every position, \<open>computeBulletCommitment\<close> returns the
  SHA-256 of a 33-byte preimage: the salt followed by the position as one byte. On every
  \<open>u32\<close> position this is the digest the contract's commitment primitive is specified
  to compute.
\<close>

theorem computeBulletCommitment_digest:
  assumes "length salt = 32"
  shows "computeBulletCommitment sha256 salt position
           = Inr (sha256 (salt @ [word_of_int position]))
         \<and> length (salt @ [word_of_int position :: byte]) = 33
         \<and> computeBulletCommitment sha256 salt (uint v) = Inr (commit sha256 salt v)"
proof -
  have pre: "computeBulletCommitment sha256 salt p = Inr (sha256 (salt @ [word_of_int p]))"
    for p
    using assms by (simp add: computeBulletCommitment_def typed_set_fits typed_put_last)
  have "(word_of_int (uint v) :: byte) = ucast v"
    by simp
  then show ?thesis
    using assms pre by (simp add: commit_def)
qed

theorem computeBulletCommitment_digest_witness:
  "length (replicate 32 (7 :: byte)) = 32
   \<and> computeBulletCommitment (\<lambda>bs. rev bs) (replicate 32 7) 258
       = Inr (rev (replicate 32 7 @ [2]))
   \<and> computeBulletCommitment (\<lambda>bs. rev bs) (replicate 32 7) (uint (5 :: u32))
       = Inr (commit (\<lambda>bs. rev bs) (replicate 32 7) 5)"
  using computeBulletCommitment_digest [of "replicate 32 7" "\<lambda>bs. rev bs" 258 5]
  by simp

text \<open>
  C10. \<open>generateZkProof\<close> returns 32 bytes that are not all zero, whatever the random
  source delivers.
\<close>

theorem generateZkProof_nonzero:
  "length (generateZkProof rnd) = 32
   \<and> \<not> list_all (\<lambda>b. b = 0) (generateZkProof rnd)
   \<and> generateZkProof rnd \<noteq> replicate 32 0"
proof -
  let ?p = "getRandomValues rnd (Uint8Array_new 32)"
  have len: "length ?p = 32"
    by (simp add: length_getRandomValues Uint8Array_new_def)
  have nz: "\<not> list_all (\<lambda>b. b = 0) (generateZkProof rnd)"
  proof (cases "list_all (\<lambda>b. b = 0) ?p")
    case True
    have "typed_put ?p 0 1 ! 0 = (1 :: byte)"
      using len by (simp add: typed_put_def)
    moreover have "0 < length (typed_put ?p 0 1)"
      using len by (simp add: length_typed_put)
    ultimately have "\<not> list_all (\<lambda>b. b = 0) (typed_put ?p 0 1)"
      by (auto simp: list_all_length)
    with True show ?thesis
      by (simp add: generateZkProof_def Let_def)
  next
    case False
    then show ?thesis
      by (simp add: generateZkProof_def Let_def)
  qed
  have l: "length (generateZkProof rnd) = 32"
    using len by (simp add: generateZkProof_def Let_def length_typed_put)
  have "list_all (\<lambda>b. b = 0) (replicate 32 (0 :: byte))"
    by (simp add: list_all_iff)
  with nz have "generateZkProof rnd \<noteq> replicate 32 0"
    by auto
  with l nz show ?thesis
    by simp
qed

section \<open>Session identifiers are in the u32 range\<close>

lemma loop_unfold_zero:
  "length buffer = 1 \<Longrightarrow> createRandomSessionId_loop rng buffer 0 i
     = createRandomSessionId_loop rng [rng i 0] (rng i 0) (Suc i)"
  by (subst createRandomSessionId_loop.simps) (simp add: getRandomValues_def Let_def)

lemma loop_nonzero_arg:
  "v \<noteq> 0 \<Longrightarrow> createRandomSessionId_loop rng buffer v i = Some v"
  by (subst createRandomSessionId_loop.simps) simp

lemma loop_result_nonzero:
  assumes "createRandomSessionId_loop rng buffer v i = Some y"
  shows "y \<noteq> 0"
  using assms
  by (induction rule: createRandomSessionId_loop.raw_induct [rotated 1, consumes 1])
    (auto simp: Let_def split: if_splits)

lemma loop_returns:
  "length buffer = 1 \<Longrightarrow> rng (i + k) 0 \<noteq> 0
   \<Longrightarrow> \<exists>y. createRandomSessionId_loop rng buffer 0 i = Some y"
proof (induction k arbitrary: i buffer)
  case 0
  then show ?case
    by (simp add: loop_unfold_zero loop_nonzero_arg)
next
  case (Suc k)
  show ?case
  proof (cases "rng i 0 = 0")
    case True
    have "\<exists>y. createRandomSessionId_loop rng [rng i 0] 0 (Suc i) = Some y"
      using Suc.IH [of "[rng i 0]" "Suc i"] Suc.prems by simp
    then show ?thesis
      using True Suc.prems by (simp add: loop_unfold_zero)
  next
    case False
    then show ?thesis
      using Suc.prems by (simp add: loop_unfold_zero loop_nonzero_arg)
  qed
qed

lemma loop_diverges:
  assumes "createRandomSessionId_loop rng buffer v i = Some y"
  shows "\<exists>k. v \<noteq> 0 \<or> rng k 0 \<noteq> 0 \<or> length buffer \<noteq> 1"
  using assms
proof (induction rule: createRandomSessionId_loop.raw_induct [rotated 1, consumes 1])
  case (1 loop rng buffer v i y)
  show ?case
  proof (cases "v = 0 \<and> length buffer = 1")
    case True
    then have "loop rng [rng i 0] (rng i 0) (Suc i) = Some y"
      using "1.hyps" by (simp add: getRandomValues_def Let_def)
    from "1.IH" [OF this] show ?thesis
      by auto
  next
    case False
    then show ?thesis by auto
  qed
qed

lemma uint_u32_range: "(w :: u32) \<noteq> 0 \<Longrightarrow> 1 \<le> uint w \<and> uint w \<le> 2 ^ 32 - 1"
proof -
  assume "w \<noteq> 0"
  then have "uint w \<noteq> 0" by (simp add: uint_0_iff)
  moreover have "0 \<le> uint w" by simp
  moreover have "uint w < 2 ^ 32" using uint_bounded [of w] by simp
  ultimately show ?thesis by linarith
qed

lemma ToUint32_range: "0 \<le> ToUint32 n \<and> ToUint32 n \<le> 2 ^ 32 - 1"
  by (simp add: ToUint32_def) 


text \<open>
  C8. Every value \<open>createRandomSessionId\<close> returns lies in \<open>1 .. 2^32 - 1\<close>. It does
  return: always on the \<open>Math.random\<close> path, and on the \<open>crypto\<close> path as soon as the
  random source delivers one non-zero word. The fallback of \<open>getInitialSessionId\<close>, taken
  when the URL carries no usable \<open>session\<close> parameter, is in the same range.
\<close>

theorem session_id_in_u32_range:
  "(createRandomSessionId crypto fmul random = Some n \<longrightarrow> 1 \<le> n \<and> n \<le> 2 ^ 32 - 1)
   \<and> (\<exists>m. createRandomSessionId None fmul random = Some m)
   \<and> (rng k 0 \<noteq> 0 \<longrightarrow> (\<exists>m. createRandomSessionId (Some rng) fmul random = Some m))
   \<and> (fromUrl = None \<or> fromUrl = Some [] \<or> Number (the fromUrl) = NaN \<longrightarrow>
        (\<exists>m. getInitialSessionId fromUrl Number rnd = Finite (of_int m)
             \<and> 1 \<le> m \<and> m \<le> 2 ^ 32 - 1))"
proof -
  have range: "1 \<le> n \<and> n \<le> 2 ^ 32 - 1" if ret: "createRandomSessionId crypto fmul random = Some n"
  proof (cases crypto)
    case None
    let ?u = "ToUint32 \<lfloor>fmul random 4294967295\<rfloor>"
    have n: "n = (if ?u = 0 then 1 else ?u)"
      using ret None by (simp add: createRandomSessionId_def Let_def)
    show ?thesis
      using ToUint32_range [of "\<lfloor>fmul random 4294967295\<rfloor>"] unfolding n by auto
  next
    case (Some g)
    then obtain w where w: "createRandomSessionId_loop g (replicate 1 0) 0 0 = Some w"
      and n: "n = uint w"
      using ret by (auto simp: createRandomSessionId_def)
    from loop_result_nonzero [OF w] show ?thesis
      unfolding n by (rule uint_u32_range)
  qed
  have math: "\<exists>m. createRandomSessionId None fmul random = Some m"
    by (simp add: createRandomSessionId_def Let_def)
  have crypto: "\<exists>m. createRandomSessionId (Some rng) fmul random = Some m" if "rng k 0 \<noteq> 0"
  proof -
    have "\<exists>y. createRandomSessionId_loop rng (replicate 1 0) 0 0 = Some y"
      using loop_returns [of "replicate 1 0" rng 0 k] that by simp
    then show ?thesis
      by (auto simp: createRandomSessionId_def)
  qed
  have fallback: "\<exists>m. getInitialSessionId fromUrl Number rnd = Finite (of_int m)
                    \<and> 1 \<le> m \<and> m \<le> 2 ^ 32 - 1"
    if "fromUrl = None \<or> fromUrl = Some [] \<or> Number (the fromUrl) = NaN"
  proof -
    let ?b = "getRandomValues rnd (replicate 1 (0 :: u32)) ! 0"
    have g: "getInitialSessionId fromUrl Number rnd
               = Finite (of_int (if ?b = 0 then 1 else uint ?b))"
      using that by (auto simp: getInitialSessionId_def Let_def)
    have "1 \<le> (if ?b = 0 then 1 else uint ?b) \<and> (if ?b = 0 then 1 else uint ?b) \<le> 2 ^ 32 - 1"
      using uint_u32_range [of ?b] by auto
    with g show ?thesis
      by blast
  qed
  from range math crypto fallback show ?thesis
    by blast
qed

theorem session_id_in_u32_range_witness:
  "createRandomSessionId (Some (\<lambda>i j. if i < 2 then 0 else 7)) (\<lambda>a b. a * b) 0 = Some 7
   \<and> (1 :: int) \<le> 7 \<and> (7 :: int) \<le> 2 ^ 32 - 1
   \<and> (\<lambda>(i :: nat) (j :: nat). if i < 2 then 0 else (7 :: u32)) 2 0 \<noteq> 0
   \<and> getInitialSessionId None (\<lambda>s. NaN) (\<lambda>i. 0) = Finite (of_int 1)"
proof -
  let ?rng = "\<lambda>i j :: nat. if i < 2 then 0 else (7 :: u32)"
  have run: "createRandomSessionId (Some ?rng) (\<lambda>a b. a * b) 0 = Some 7"
    by (simp add: createRandomSessionId_def loop_unfold_zero loop_nonzero_arg)
  have fb: "getInitialSessionId None (\<lambda>s. NaN) (\<lambda>i. 0) = Finite (of_int 1)"
    by (simp add: getInitialSessionId_def getRandomValues_def)
  show ?thesis
    using session_id_in_u32_range
        [where crypto = "Some ?rng" and fmul = "\<lambda>a b. a * b" and random = 0 and n = 7
           and rng = ?rng and k = 2 and fromUrl = None and Number = "\<lambda>s. NaN"
           and rnd = "\<lambda>i. 0"]
      run fb
    by simp
qed

section \<open>parsePoints never fails and never goes negative\<close>

lemma digits_value_append:
  "digits_value (a @ b) = digits_value a * 10 ^ length b + digits_value b"
proof (induction b rule: rev_induct)
  case Nil
  then show ?case by (simp add: digits_value_def)
next
  case (snoc c b)
  have "digits_value (a @ b @ [c]) = 10 * digits_value (a @ b) + digit_value c"
    by (simp add: digits_value_def)
  also have "\<dots> = digits_value a * 10 ^ length (b @ [c]) + (10 * digits_value b + digit_value c)"
    by (simp add: snoc.IH algebra_simps)
  also have "10 * digits_value b + digit_value c = digits_value (b @ [c])"
    by (simp add: digits_value_def)
  finally show ?case by simp
qed

lemma digit_value_le: "is_digit c \<Longrightarrow> digit_value c \<le> 9"
  by (auto simp: is_digit_def digit_value_def)

lemma digits_value_bound: "list_all is_digit b \<Longrightarrow> digits_value b < 10 ^ length b"
proof (induction b rule: rev_induct)
  case Nil
  then show ?case by (simp add: digits_value_def)
next
  case (snoc c b)
  then have "digits_value b < 10 ^ length b" and "digit_value c \<le> 9"
    by (simp_all add: digit_value_le)
  then have "10 * digits_value b + digit_value c < 10 * 10 ^ length b"
    by linarith
  moreover have "digits_value (b @ [c]) = 10 * digits_value b + digit_value c"
    by (simp add: digits_value_def)
  ultimately show ?case by simp
qed

lemma digits_value_zeros: "digits_value (replicate n CHR ''0'') = 0"
proof (induction n)
  case 0
  then show ?case by (simp add: digits_value_def)
next
  case (Suc n)
  have "replicate (Suc n) CHR ''0'' = replicate n CHR ''0'' @ ''0''"
    by (simp add: replicate_append_same)
  moreover have "digits_value ''0'' = 0"
    by (simp add: digits_value_def digit_value_def)
  ultimately show ?case
    using Suc by (simp add: digits_value_append)
qed

lemma digits_value_take:
  assumes "list_all is_digit ds"
  shows "digits_value (take m ds) = digits_value ds div 10 ^ (length ds - m)"
proof -
  have d: "list_all is_digit (drop m ds)"
    using assms by (auto simp: list_all_iff dest: in_set_dropD)
  have "digits_value ds = digits_value (take m ds @ drop m ds)"
    by simp
  also have "\<dots> = digits_value (take m ds) * 10 ^ (length ds - m) + digits_value (drop m ds)"
    by (simp only: digits_value_append length_drop)
  finally have e: "digits_value ds
      = digits_value (take m ds) * 10 ^ (length ds - m) + digits_value (drop m ds)" .
  have "digits_value (drop m ds) < 10 ^ (length ds - m)"
    using digits_value_bound [OF d] by simp
  then show ?thesis
    unfolding e by simp
qed

lemma split_on_nonempty: "split_on sep s \<noteq> []"
  by (induction s) (auto split: list.splits)

lemma split_on_parts:
  "p \<in> set (split_on sep s) \<Longrightarrow> set p \<subseteq> set s - {sep}"
proof (induction s arbitrary: p)
  case Nil
  then show ?case by simp
next
  case (Cons c cs)
  then show ?case
    by (fastforce split: if_splits list.splits)
qed

lemma split_on_no_sep: "sep \<notin> set s \<Longrightarrow> split_on sep s = [s]"
  by (induction s) auto

lemma split_on_append:
  "sep \<notin> set a \<Longrightarrow> split_on sep (a @ sep # b) = a # split_on sep b"
  by (induction a) (auto simp: split_on_nonempty split: list.splits)


lemma BigInt_digits: "list_all is_digit s \<Longrightarrow> BigInt s = Inr (int (digits_value s))"
  by (cases s) (auto simp: BigInt_def is_digit_def digits_value_def)

lemma parts_digits:
  assumes "p \<in> set (split_on CHR ''.'' (strip_non_numeric v))"
  shows "list_all is_digit p"
proof -
  have "set p \<subseteq> set (strip_non_numeric v) - {CHR ''.''}"
    using assms by (rule split_on_parts)
  then show ?thesis
    by (auto simp: strip_non_numeric_def list_all_iff)
qed

lemma whole_part_digits: "list_all is_digit (whole_part (strip_non_numeric v))"
proof (cases "split_on CHR ''.'' (strip_non_numeric v)")
  case Nil
  then show ?thesis by (simp add: split_on_nonempty)
next
  case (Cons w ps)
  then have "w \<in> set (split_on CHR ''.'' (strip_non_numeric v))" by simp
  from parts_digits [OF this] Cons show ?thesis
    by (simp add: whole_part_def)
qed

lemma fraction_part_digits: "list_all is_digit (fraction_part (strip_non_numeric v))"
proof (cases "split_on CHR ''.'' (strip_non_numeric v)")
  case Nil
  then show ?thesis by (simp add: fraction_part_def)
next
  case (Cons w ps)
  show ?thesis
  proof (cases ps)
    case Nil
    with Cons show ?thesis by (simp add: fraction_part_def)
  next
    case (Cons f qs)
    with \<open>split_on CHR ''.'' (strip_non_numeric v) = w # ps\<close>
    have "f \<in> set (split_on CHR ''.'' (strip_non_numeric v))" by simp
    from parts_digits [OF this] Cons \<open>split_on CHR ''.'' (strip_non_numeric v) = w # ps\<close>
    show ?thesis by (simp add: fraction_part_def)
  qed
qed

lemma scale_le: "k \<le> n \<Longrightarrow> (x / 10 ^ k :: rat) * 10 ^ n = x * 10 ^ (n - k)"
  by (simp add: power_diff)

lemma scale_ge: "n \<le> k \<Longrightarrow> (x / 10 ^ k :: rat) * 10 ^ n = x / 10 ^ (k - n)"
  by (simp add: power_diff)

text \<open>The digits kept of the fraction: padded with zeros to seven, cut after seven.\<close>

lemma padded_fraction_value:
  assumes "list_all is_digit f"
  shows "length (take 7 (padEnd 7 CHR ''0'' f)) = 7
         \<and> int (digits_value (take 7 (padEnd 7 CHR ''0'' f)))
             = \<lfloor>(of_nat (digits_value f) / 10 ^ length f :: rat) * 10 ^ 7\<rfloor>"
proof (cases "length f \<le> 7")
  case True
  then have t: "take 7 (padEnd 7 CHR ''0'' f) = f @ replicate (7 - length f) CHR ''0''"
    by (simp add: padEnd_def)
  have v: "digits_value (f @ replicate (7 - length f) CHR ''0'') = digits_value f * 10 ^ (7 - length f)"
    by (simp add: digits_value_append digits_value_zeros)
  have "(of_nat (digits_value f) / 10 ^ length f :: rat) * 10 ^ 7
        = of_int (int (digits_value f * 10 ^ (7 - length f)))"
    using True by (simp only: scale_le) simp
  then have "\<lfloor>(of_nat (digits_value f) / 10 ^ length f :: rat) * 10 ^ 7\<rfloor>
        = int (digits_value f * 10 ^ (7 - length f))"
    by (simp only: floor_of_int)
  with True show ?thesis
    unfolding t v by simp
next
  case False
  then have t: "take 7 (padEnd 7 CHR ''0'' f) = take 7 f"
    by (simp add: padEnd_def)
  have v: "digits_value (take 7 f) = digits_value f div 10 ^ (length f - 7)"
    using assms by (rule digits_value_take)
  have "7 \<le> length f"
    using False by simp
  then have "(of_nat (digits_value f) / 10 ^ length f :: rat) * 10 ^ 7
        = of_int (int (digits_value f)) / of_int (10 ^ (length f - 7))"
    by (simp only: scale_ge) simp
  then have "\<lfloor>(of_nat (digits_value f) / 10 ^ length f :: rat) * 10 ^ 7\<rfloor>
        = int (digits_value f) div 10 ^ (length f - 7)"
    by (simp only: floor_divide_of_int_eq)
  also have "\<dots> = int (digits_value f div 10 ^ (length f - 7))"
    by (simp add: zdiv_int)
  finally show ?thesis
    using False unfolding t v by simp
qed

lemma parsePoints_value:
  assumes "strip_non_numeric v \<noteq> []" and "strip_non_numeric v \<noteq> ''.''"
  shows "parsePoints v
     = Some \<lfloor>decimal_value (whole_part (strip_non_numeric v))
                              (fraction_part (strip_non_numeric v)) * 10 ^ 7\<rfloor>"
proof -
  let ?w = "whole_part (strip_non_numeric v)" and ?f = "fraction_part (strip_non_numeric v)"
  let ?p = "take 7 (padEnd 7 CHR ''0'' ?f)"
  have wd: "list_all is_digit ?w" and fd: "list_all is_digit ?f"
    by (rule whole_part_digits, rule fraction_part_digits)
  have "is_digit CHR ''0''"
    by (simp add: is_digit_def)
  then have "list_all is_digit (padEnd 7 CHR ''0'' ?f)"
    using fd by (auto simp: padEnd_def list_all_iff)
  then have pd: "list_all is_digit ?p"
    by (auto simp: list_all_iff dest: in_set_takeD)
  have big: "BigInt (?w @ ?p) = Inr (int (digits_value (?w @ ?p)))"
    using wd pd by (intro BigInt_digits) simp
  have pf: "length ?p = 7" and pv: "int (digits_value ?p)
             = \<lfloor>(of_nat (digits_value ?f) / 10 ^ length ?f :: rat) * 10 ^ 7\<rfloor>"
    using padded_fraction_value [OF fd] by simp_all
  have "int (digits_value (?w @ ?p)) = int (digits_value ?w) * 10 ^ 7 + int (digits_value ?p)"
    unfolding digits_value_append pf by simp
  also have "\<dots> = \<lfloor>of_int (int (digits_value ?w) * 10 ^ 7)
                    + (of_nat (digits_value ?f) / 10 ^ length ?f :: rat) * 10 ^ 7\<rfloor>"
    unfolding pv by (simp only: int_add_floor)
  also have "\<dots> = \<lfloor>decimal_value ?w ?f * 10 ^ 7\<rfloor>"
    by (simp add: decimal_value_def algebra_simps)
  finally have val: "int (digits_value (?w @ ?p)) = \<lfloor>decimal_value ?w ?f * 10 ^ 7\<rfloor>" .
  have "parsePoints v = (case BigInt (?w @ ?p) of Inl e \<Rightarrow> None | Inr n \<Rightarrow> Some n)"
    using assms by (simp add: parsePoints_def Let_def whole_part_def fraction_part_def POINTS_DECIMALS_def)
  then show ?thesis
    by (simp add: big val)
qed


lemma decimal_value_nonneg: "0 \<le> decimal_value w f"
  by (simp add: decimal_value_def)

lemma strip_digits_dot:
  "list_all is_digit w \<Longrightarrow> list_all is_digit f
   \<Longrightarrow> strip_non_numeric (w @ ''.'' @ f) = w @ ''.'' @ f"
  by (simp add: strip_non_numeric_def list_all_iff)

lemma dot_not_digit: "\<not> is_digit CHR ''.''"
  by (simp add: is_digit_def)

lemma is_digit_not_dot: "list_all is_digit w \<Longrightarrow> CHR ''.'' \<notin> set w"
  using dot_not_digit by (auto simp: list_all_iff)

lemma parts_of_numeral:
  assumes "list_all is_digit w" and "list_all is_digit f"
  shows "whole_part (w @ ''.'' @ f) = w" and "fraction_part (w @ ''.'' @ f) = f"
proof -
  have "split_on CHR ''.'' (w @ CHR ''.'' # f) = w # split_on CHR ''.'' f"
    using assms(1) by (intro split_on_append is_digit_not_dot)
  also have "split_on CHR ''.'' f = [f]"
    using assms(2) by (intro split_on_no_sep is_digit_not_dot)
  finally have "split_on CHR ''.'' (w @ ''.'' @ f) = [w, f]"
    by simp
  then show "whole_part (w @ ''.'' @ f) = w" and "fraction_part (w @ ''.'' @ f) = f"
    by (simp_all add: whole_part_def fraction_part_def)
qed

lemma parts_of_integer:
  assumes "list_all is_digit w"
  shows "whole_part w = w" and "fraction_part w = []"
proof -
  have "split_on CHR ''.'' w = [w]"
    using assms by (intro split_on_no_sep is_digit_not_dot)
  then show "whole_part w = w" and "fraction_part w = []"
    by (simp_all add: whole_part_def fraction_part_def)
qed

text \<open>
  C9. \<open>parsePoints\<close> is total: it returns \<open>null\<close> exactly when the cleaned text is empty
  or a single dot, and otherwise a non-negative amount, the decimal value of the first two
  dot-separated digit groups scaled by \<open>10^7\<close> and rounded down (digits after the seventh
  are dropped). In particular a decimal numeral \<open>w.f\<close> gives \<open>\<lfloor>w.f * 10^7\<rfloor>\<close> and a
  numeral without a dot its value times \<open>10^7\<close>.
\<close>

theorem parsePoints_total_nonnegative:
  "(parsePoints v = None \<longleftrightarrow> strip_non_numeric v = [] \<or> strip_non_numeric v = ''.'')
   \<and> (parsePoints v \<noteq> None \<longrightarrow>
        parsePoints v = Some \<lfloor>decimal_value (whole_part (strip_non_numeric v))
                                    (fraction_part (strip_non_numeric v)) * 10 ^ 7\<rfloor>)
   \<and> (\<forall>n. parsePoints v = Some n \<longrightarrow> 0 \<le> n)
   \<and> (list_all is_digit w \<and> list_all is_digit f \<and> w @ f \<noteq> [] \<longrightarrow>
        parsePoints (w @ ''.'' @ f) = Some \<lfloor>decimal_value w f * 10 ^ 7\<rfloor>)
   \<and> (list_all is_digit w \<and> w \<noteq> [] \<longrightarrow>
        parsePoints w = Some (int (digits_value w) * 10 ^ 7))"
proof -
  let ?c = "strip_non_numeric v"
  have null: "parsePoints v = None" if "?c = [] \<or> ?c = ''.''"
    using that by (auto simp: parsePoints_def Let_def)
  have val: "parsePoints v = Some \<lfloor>decimal_value (whole_part ?c) (fraction_part ?c) * 10 ^ 7\<rfloor>"
    if "\<not> (?c = [] \<or> ?c = ''.'')"
    using that by (intro parsePoints_value) simp_all
  have a: "parsePoints v = None \<longleftrightarrow> ?c = [] \<or> ?c = ''.''"
    using null val by fastforce
  have b: "parsePoints v \<noteq> None \<longrightarrow>
        parsePoints v = Some \<lfloor>decimal_value (whole_part ?c) (fraction_part ?c) * 10 ^ 7\<rfloor>"
  proof
    assume "parsePoints v \<noteq> None"
    with null have "\<not> (?c = [] \<or> ?c = ''.'')"
      by auto
    then show "parsePoints v
        = Some \<lfloor>decimal_value (whole_part ?c) (fraction_part ?c) * 10 ^ 7\<rfloor>"
      by (rule val)
  qed
  have c: "\<forall>n. parsePoints v = Some n \<longrightarrow> 0 \<le> n"
  proof (intro allI impI)
    fix n assume n: "parsePoints v = Some n"
    then have "n = \<lfloor>decimal_value (whole_part ?c) (fraction_part ?c) * 10 ^ 7\<rfloor>"
      using b by simp
    moreover have "0 \<le> decimal_value (whole_part ?c) (fraction_part ?c) * 10 ^ 7"
      by (intro mult_nonneg_nonneg decimal_value_nonneg) simp
    ultimately show "0 \<le> n" by simp
  qed
  have d: "parsePoints (w @ ''.'' @ f) = Some \<lfloor>decimal_value w f * 10 ^ 7\<rfloor>"
    if w: "list_all is_digit w" and f: "list_all is_digit f" and ne: "w @ f \<noteq> []"
  proof -
    have s: "strip_non_numeric (w @ ''.'' @ f) = w @ ''.'' @ f"
      using w f by (rule strip_digits_dot)
    have "strip_non_numeric (w @ ''.'' @ f) \<noteq> []"
      and "strip_non_numeric (w @ ''.'' @ f) \<noteq> ''.''"
      using ne unfolding s by (simp_all add: append_eq_Cons_conv)
    from parsePoints_value [OF this] show ?thesis
      unfolding s parts_of_numeral [OF w f] .
  qed
  have e: "parsePoints w = Some (int (digits_value w) * 10 ^ 7)"
    if w: "list_all is_digit w" and ne: "w \<noteq> []"
  proof -
    have s: "strip_non_numeric w = w"
      using w by (simp add: strip_non_numeric_def list_all_iff)
    have "strip_non_numeric w \<noteq> []" and "strip_non_numeric w \<noteq> ''.''"
      using is_digit_not_dot [OF w] ne unfolding s by auto
    from parsePoints_value [OF this]
    have "parsePoints w = Some \<lfloor>decimal_value w [] * 10 ^ 7\<rfloor>"
      unfolding s parts_of_integer [OF w] .
    moreover have "decimal_value w [] * 10 ^ 7 = of_int (int (digits_value w) * 10 ^ 7)"
      by (simp add: decimal_value_def digits_value_def)
    ultimately show ?thesis
      by (simp only: floor_of_int)
  qed
  from a b c d e show ?thesis
    by (intro conjI impI) auto
qed

theorem parsePoints_total_nonnegative_witness:
  "parsePoints ''-1.5 pts'' = Some 15000000
   \<and> (0 :: int) \<le> 15000000
   \<and> list_all is_digit ''1'' \<and> list_all is_digit ''5'' \<and> ''1'' @ ''5'' \<noteq> []
   \<and> parsePoints (''1'' @ ''.'' @ ''5'') = Some \<lfloor>decimal_value ''1'' ''5'' * 10 ^ 7\<rfloor>
   \<and> parsePoints ''1'' = Some (int (digits_value ''1'') * 10 ^ 7)"
proof -
  have cleaned: "strip_non_numeric ''-1.5 pts'' = ''1.5''"
    by (simp add: strip_non_numeric_def is_digit_def)
  have padded: "take 7 (padEnd 7 CHR ''0'' ''5'') = ''5000000''"
    by (simp add: padEnd_def eval_nat_numeral)
  have big: "BigInt ''15000000'' = Inr 15000000"
    by (simp add: BigInt_def is_digit_def digits_value_def digit_value_def)
  have run: "parsePoints ''-1.5 pts'' = Some 15000000"
    by (simp add: parsePoints_def Let_def cleaned padded big POINTS_DECIMALS_def)
  have digits: "list_all is_digit ''1''" "list_all is_digit ''5''"
    by (simp_all add: is_digit_def)
  show ?thesis
    using parsePoints_total_nonnegative [of "''-1.5 pts''" "''1''" "''5''"] run digits
    by simp
qed

section \<open>Reads of the roulette session\<close>

lemma getGame_Some_iff: "getGame sim = Some g \<longleftrightarrow> sim = Simulated (Inr g)"
  by (auto simp: getGame_def split: simulation.splits sum.splits)

lemma getGame_None_iff:
  "getGame sim = None \<longleftrightarrow> (\<exists>e. sim = Threw e) \<or> (\<exists>e. sim = Simulated (Inl e))"
  by (auto simp: getGame_def split: simulation.splits sum.splits)

lemma whoIsAlive_cases:
  "whoIsAlive (Simulated (Inr addrs)) = addrs"
  "whoIsAlive (Simulated (Inl e)) = []"
  "whoIsAlive (Threw m) = []"
  by (simp_all add: whoIsAlive_def)

text \<open>
  The two reads do not tell a failure from another: a session that is not found, any other
  contract error and an exception all give \<open>null\<close> from \<open>getGame\<close>, and from
  \<open>whoIsAlive\<close> the empty list, which is also a successful answer.
\<close>

theorem reads_collapse_failures_counterexample:
  "getGame (Simulated (Inl GameNotFound)) = getGame (Simulated (Inl WrongPhase))
   \<and> getGame (Simulated (Inl GameNotFound)) = getGame (Threw ''network error'')
   \<and> whoIsAlive (Simulated (Inl GameNotFound)) = whoIsAlive (Threw ''network error'')
   \<and> whoIsAlive (Simulated (Inl GameNotFound)) = whoIsAlive (Simulated (Inr []))"
  by (simp add: getGame_def whoIsAlive_def)

text \<open>
  C7 (amended). The contract's reads deliver a typed \<open>Result\<close>; the client wrappers keep
  only its success. \<open>getGame\<close> returns the session record exactly when the simulation
  ended in \<open>Ok\<close> and \<open>null\<close> on every failure, whatever its kind; \<open>whoIsAlive\<close> returns
  the list of an \<open>Ok\<close> result and the empty list on every failure.
\<close>

theorem reads_return_value_or_neutral:
  "(getGame sim = Some g \<longleftrightarrow> sim = Simulated (Inr g))
   \<and> (getGame sim = None \<longleftrightarrow> (\<exists>e. sim = Threw e) \<or> (\<exists>e. sim = Simulated (Inl e)))
   \<and> whoIsAlive (Simulated (Inr addrs)) = addrs
   \<and> whoIsAlive (Simulated (Inl e)) = []
   \<and> whoIsAlive (Threw m) = []"
  by (simp add: getGame_Some_iff getGame_None_iff whoIsAlive_cases)

section \<open>What loading the revolver publishes\<close>



lemma handleDisparar_isHit:
  "handleDisparar (Some g) rnd sid user signer
     = Some (current_chamber g = bullet_position g,
             case signer of
               Inl e \<Rightarrow> Inl e
             | Inr u \<Rightarrow> Inr (Disparar sid user (generateZkProof rnd)))"
  by (simp add: handleDisparar_def ZkMafiaService_disparar_def Let_def split: sum.split)

lemma handleBotShot_isHit:
  "handleBotShot (Some g) rnd sid secrets fromSecret = Some (isHit, sent)
   \<Longrightarrow> isHit = (current_chamber g = bullet_position g)"
  by (simp add: handleBotShot_def Let_def split: if_splits)

section \<open>The fire action\<close>

lemma disparar_result:
  assumes "disparar hash reload (Some g) player zk_proof = Inr (hit, g')"
  shows "rejection g player zk_proof = None"
    and "hit = (current_chamber g = bullet_position g)"
    and "g' = (if hit then die hash reload g player else survive g)"
  using assms
  by (auto simp: disparar_def split: option.splits if_splits)

lemma rejection_None:
  assumes "rejection g player zk_proof = None"
  shows "phase g = PHASE_PLAYING"
    and "\<exists>me. find (\<lambda>p. address p = player) (players g) = Some me \<and> is_alive me"
    and "shots_fired g \<noteq> - 1"
  using assms
  by (auto simp: rejection_def split: option.splits if_splits)

lemma survive_fields:
  "players (survive g) = players g"
  "eliminated (survive g) = eliminated g"
  "shots_fired (survive g) = shots_fired g + 1"
  by (simp_all add: survive_def fired_def)

lemma die_fields:
  "players (die hash reload g player) = eliminate player (players g)"
  "eliminated (die hash reload g player) = eliminated g @ [player]"
  "shots_fired (die hash reload g player) = shots_fired g + 1"
  by (simp_all add: die_def fired_def Let_def)

lemma die_reload:
  assumes "2 \<le> length (alive (eliminate player (players g)))"
  shows "bullet_position (die hash reload g player)
           = of_nat (hash (session_id g) (shots_fired g + 1) mod 6)"
    and "phase (die hash reload g player) = phase g"
    and "winner (die hash reload g player) = winner g"
  using assms by (simp_all add: die_def fired_def Let_def)

lemma die_finish:
  assumes "\<not> 2 \<le> length (alive (eliminate player (players g)))"
  shows "phase (die hash reload g player) = PHASE_FINISHED"
    and "winner (die hash reload g player)
           = (case alive (eliminate player (players g)) of
                [] \<Rightarrow> None | w # _ \<Rightarrow> Some (address w))"
  using assms by (simp_all add: die_def fired_def Let_def)

lemma eliminate_dead: "player \<notin> set (map address (alive (eliminate player ps)))"
  by (induction ps) (simp_all add: alive_def eliminate_def)

lemma find_alive:
  "find (\<lambda>p. address p = player) ps = Some me \<Longrightarrow> is_alive me
   \<Longrightarrow> player \<in> set (map address (alive ps))"
  by (induction ps) (simp_all add: alive_def split: if_splits)

section \<open>What an observer of the session learns\<close>


section \<open>Hit, elimination and reload\<close>

lemma unat_succ: "(s :: u32) \<noteq> - 1 \<Longrightarrow> unat (s + 1) = unat s + 1"
proof -
  assume "s \<noteq> - 1"
  then have "unat s \<noteq> unat (- 1 :: u32)"
    by (simp add: word_unat_eq_iff)
  moreover have "unat s < 2 ^ 32"
    using unsigned_less [of s] by simp
  moreover have "unat (- 1 :: u32) = 2 ^ 32 - 1"
    by (simp add: unsigned_minus_1_eq_mask mask_eq_exp_minus_1)
  ultimately have "unat s + unat (1 :: u32) < 2 ^ LENGTH(32)"
    by simp
  then show ?thesis
    by (simp add: unat_add_lem [THEN iffD1])
qed

text \<open>
  C4. An accepted fire action reports a hit exactly when the chamber fired equals the
  bullet chamber; the firer is among the players alive afterwards exactly when the shot
  missed, and is appended to the eliminated exactly on a hit; when the hit leaves one
  player alive the game is finished and that player is the winner. The handlers
  \<open>handleDisparar\<close> and \<open>handleBotShot\<close> compute the same outcome from the session record.
\<close>

theorem fire_hits_iff_bullet_chamber:
  assumes "disparar hash reload (Some g) player zk_proof = Inr (hit, g')"
  shows "(hit \<longleftrightarrow> current_chamber g = bullet_position g)
     \<and> (player \<in> set (map address (alive (players g'))) \<longleftrightarrow> \<not> hit)
     \<and> eliminated g' = (if hit then eliminated g @ [player] else eliminated g)
     \<and> (hit \<and> alive (players g') = [w] \<longrightarrow>
            phase g' = PHASE_FINISHED \<and> winner g' = Some (address w))
     \<and> handleDisparar (Some g) rnd sid user signer
           = Some (hit, case signer of
                          Inl e \<Rightarrow> Inl e
                        | Inr u \<Rightarrow> Inr (Disparar sid user (generateZkProof rnd)))
     \<and> (handleBotShot (Some g) rnd sid secrets fromSecret = Some (isHit, sent) \<longrightarrow>
            isHit = hit)"
proof -
  note r = disparar_result [OF assms]
  have hit: "hit \<longleftrightarrow> current_chamber g = bullet_position g"
    by (rule r(2))
  obtain me where me: "find (\<lambda>p. address p = player) (players g) = Some me" "is_alive me"
    using rejection_None(2) [OF r(1)] by blast
  have alive: "player \<in> set (map address (alive (players g'))) \<longleftrightarrow> \<not> hit"
  proof (cases hit)
    case True
    then have "players g' = eliminate player (players g)"
      using r(3) by (simp add: die_fields)
    with True show ?thesis
      using eliminate_dead [of player "players g"] by simp
  next
    case False
    then have "players g' = players g"
      using r(3) by (simp add: survive_fields)
    with False show ?thesis
      using find_alive [OF me] by simp
  qed
  have elim: "eliminated g' = (if hit then eliminated g @ [player] else eliminated g)"
    using r(3) by (simp add: die_fields survive_fields)
  have win: "phase g' = PHASE_FINISHED \<and> winner g' = Some (address w)"
    if "hit" and one: "alive (players g') = [w]"
  proof -
    have g': "g' = die hash reload g player"
      using r(3) that by simp
    then have one': "alive (eliminate player (players g)) = [w]"
      using one by (simp add: die_fields)
    then have "\<not> 2 \<le> length (alive (eliminate player (players g)))"
      by simp
    from die_finish [OF this, of hash reload] show ?thesis
      unfolding g' one' by simp
  qed
  have front: "handleDisparar (Some g) rnd sid user signer
           = Some (hit, case signer of
                          Inl e \<Rightarrow> Inl e
                        | Inr u \<Rightarrow> Inr (Disparar sid user (generateZkProof rnd)))"
    by (simp add: handleDisparar_isHit hit)
  have bot: "isHit = hit"
    if "handleBotShot (Some g) rnd sid secrets fromSecret = Some (isHit, sent)"
    using handleBotShot_isHit [OF that] hit by simp
  from hit alive elim win front bot show ?thesis
    by blast
qed

lemmas fire_eval = disparar_def rejection_def PHASE_PLAYING_def PHASE_FINISHED_def jug_def

theorem fire_hits_iff_bullet_chamber_witness:
  "disparar (\<lambda>s n. unat s + 7 * unat n) (\<lambda>c. 0) (Some scenario_last_two) ''A'' [1]
     = Inr (True, die (\<lambda>s n. unat s + 7 * unat n) (\<lambda>c. 0) scenario_last_two ''A'')
   \<and> current_chamber scenario_last_two = bullet_position scenario_last_two
   \<and> alive (players (die (\<lambda>s n. unat s + 7 * unat n) (\<lambda>c. 0) scenario_last_two ''A''))
       = [jug ''B'']
   \<and> phase (die (\<lambda>s n. unat s + 7 * unat n) (\<lambda>c. 0) scenario_last_two ''A'') = PHASE_FINISHED
   \<and> winner (die (\<lambda>s n. unat s + 7 * unat n) (\<lambda>c. 0) scenario_last_two ''A'') = Some ''B''
   \<and> handleDisparar (Some scenario_last_two) (\<lambda>i. 1) 9 ''A'' (Inr ())
       = Some (True, Inr (Disparar 9 ''A'' (generateZkProof (\<lambda>i. 1))))
   \<and> handleBotShot (Some scenario_last_two) (\<lambda>i. 1) 9 (\<lambda>n. ''SECRET'') (\<lambda>secret. Inr ''BOT'')
       = Some (True, Inr (Disparar 9 ''BOT'' (generateZkProof (\<lambda>i. 1))))"
proof -
  let ?h = "\<lambda>(s :: u32) (n :: u32). unat s + 7 * unat n" and ?r = "\<lambda>c :: u32. 0 :: u32"
  let ?g' = "die ?h ?r scenario_last_two ''A''"
  have run: "disparar ?h ?r (Some scenario_last_two) ''A'' [1] = Inr (True, ?g')"
    by (simp add: fire_eval scenario_last_two_def)
  have left: "alive (players ?g') = [jug ''B'']"
    by (simp add: die_fields eliminate_def alive_def scenario_last_two_def jug_def)
  have bot: "handleBotShot (Some scenario_last_two) (\<lambda>i. 1) 9 (\<lambda>n. ''SECRET'') (\<lambda>secret. Inr ''BOT'')
       = Some (True, Inr (Disparar 9 ''BOT'' (generateZkProof (\<lambda>i. 1))))"
    by (simp add: handleBotShot_def createBotSigner_def ZkMafiaService_disparar_def
        scenario_last_two_def jug_def Let_def)
  have b: "address (jug ''B'') = ''B''"
    by (simp add: jug_def)
  show ?thesis
    using fire_hits_iff_bullet_chamber
        [OF run, where w = "jug ''B''" and rnd = "\<lambda>i. 1" and sid = 9 and user = "''A''"
           and signer = "Inr ()" and secrets = "\<lambda>n. ''SECRET''" and fromSecret = "\<lambda>secret. Inr ''BOT''"
           and isHit = True
           and sent = "Inr (Disparar 9 ''BOT'' (generateZkProof (\<lambda>i. 1)))"]
      run left bot b
    by simp
qed

text \<open>
  C3. When an accepted shot hits and at least two players are still alive, the bullet
  chamber of the session becomes \<open>hash(session_id \<parallel> shots_fired) mod 6\<close>, taken at the
  shot count that includes this shot; the shot counter is one more than before, not 0,
  and the game stays active without a winner being set.
\<close>

theorem reload_after_elimination:
  assumes "disparar hash reload (Some g) player zk_proof = Inr (True, g')"
    and "2 \<le> length (alive (players g'))"
  shows "unat (bullet_position g') = hash (session_id g) (shots_fired g') mod 6
     \<and> unat (shots_fired g') = unat (shots_fired g) + 1
     \<and> phase g' = PHASE_PLAYING
     \<and> winner g' = winner g"
proof -
  note r = disparar_result [OF assms(1)]
  have g': "g' = die hash reload g player"
    using r(3) by simp
  have two: "2 \<le> length (alive (eliminate player (players g)))"
    using assms(2) unfolding g' by (simp add: die_fields)
  have shots: "shots_fired g' = shots_fired g + 1"
    unfolding g' by (simp add: die_fields)
  have "hash (session_id g) (shots_fired g + 1) mod 6 < 2 ^ 32"
    by (rule less_trans [of _ 6]) simp_all
  then have "unat (of_nat (hash (session_id g) (shots_fired g + 1) mod 6) :: u32)
               = hash (session_id g) (shots_fired g + 1) mod 6"
    by (simp add: unat_of_nat)
  then have bullet: "unat (bullet_position g') = hash (session_id g) (shots_fired g') mod 6"
    unfolding shots unfolding g' die_reload(1) [OF two] .
  have count: "unat (shots_fired g') = unat (shots_fired g) + 1"
    unfolding shots using rejection_None(3) [OF r(1)] by (rule unat_succ)
  have "phase g' = PHASE_PLAYING" and "winner g' = winner g"
    unfolding g' using die_reload(2,3) [OF two] rejection_None(1) [OF r(1)] by simp_all
  with bullet count show ?thesis
    by simp
qed

theorem reload_after_elimination_witness:
  "disparar (\<lambda>s n. unat s + 7 * unat n) (\<lambda>c. 0) (Some scenario_start) ''A'' [1]
     = Inr (False, survive scenario_start)
   \<and> disparar (\<lambda>s n. unat s + 7 * unat n) (\<lambda>c. 0) (Some (survive scenario_start)) ''B'' [1]
     = Inr (False, survive (survive scenario_start))
   \<and> disparar (\<lambda>s n. unat s + 7 * unat n) (\<lambda>c. 0)
         (Some (survive (survive scenario_start))) ''C'' [1]
     = Inr (True, die (\<lambda>s n. unat s + 7 * unat n) (\<lambda>c. 0)
                      (survive (survive scenario_start)) ''C'')
   \<and> length (alive (players (die (\<lambda>s n. unat s + 7 * unat n) (\<lambda>c. 0)
                                   (survive (survive scenario_start)) ''C''))) = 2
   \<and> shots_fired (die (\<lambda>s n. unat s + 7 * unat n) (\<lambda>c. 0)
                      (survive (survive scenario_start)) ''C'') = 3
   \<and> unat (bullet_position (die (\<lambda>s n. unat s + 7 * unat n) (\<lambda>c. 0)
                                  (survive (survive scenario_start)) ''C''))
       = (\<lambda>(s :: u32) (n :: u32). unat s + 7 * unat n) 9 3 mod 6"
proof -
  let ?h = "\<lambda>(s :: u32) (n :: u32). unat s + 7 * unat n" and ?r = "\<lambda>c :: u32. 0 :: u32"
  let ?g1 = "survive scenario_start"
  let ?g2 = "survive ?g1"
  let ?g3 = "die ?h ?r ?g2 ''C''"
  have g1: "?g1 = scenario_start\<lparr>current_chamber := 1, shots_fired := 1, current_turn := 1\<rparr>"
    by (simp add: survive_def fired_def scenario_start_def jug_def)
  have g2: "?g2 = scenario_start\<lparr>current_chamber := 2, shots_fired := 2, current_turn := 2\<rparr>"
    unfolding g1 by (simp add: survive_def fired_def scenario_start_def jug_def)
  have s1: "disparar ?h ?r (Some scenario_start) ''A'' [1] = Inr (False, ?g1)"
    by (simp add: fire_eval scenario_start_def)
  have s2: "disparar ?h ?r (Some ?g1) ''B'' [1] = Inr (False, ?g2)"
    unfolding g1 by (simp add: fire_eval scenario_start_def)
  have s3: "disparar ?h ?r (Some ?g2) ''C'' [1] = Inr (True, ?g3)"
    unfolding g2 by (simp add: fire_eval scenario_start_def)
  have two: "length (alive (players ?g3)) = 2"
    unfolding g2 by (simp add: die_fields eliminate_def alive_def scenario_start_def jug_def)
  have shots: "shots_fired ?g3 = 3" "session_id ?g2 = 9"
    unfolding g2 by (simp_all add: die_fields scenario_start_def)
  from two have "2 \<le> length (alive (players ?g3))"
    by simp
  from reload_after_elimination [OF s3 this] s1 s2 s3 two shots show ?thesis
    by simp
qed

section \<open>Self-play is rejected before anything is signed\<close>

lemma log_call_fields:
  "calls (log_call c st) = calls st @ [c]"
  "userAddress (log_call c st) = userAddress st"
  "importAuthEntryXDR (log_call c st) = importAuthEntryXDR st"
  "gamePhase (log_call c st) = gamePhase st"
  "currentSessionId (log_call c st) = currentSessionId st"
  by (simp_all add: log_call_def)

lemma parseXDR_self_play:
  assumes "parseAuthEntry sv (trim (importAuthEntryXDR st)) = Inr gameParams"
    and "player1 gameParams = userAddress st"
  shows "xdrParseError (parseXDR sv st)
           = Some ''You cannot play against yourself. This auth entry was created by you (Player 1).''"
    and "\<not> xdrParseSuccess (parseXDR sv st)"
    and "importPlayer1 (parseXDR sv st) = []"
    and "importSessionId (parseXDR sv st) = []"
  using assms
  by (simp_all add: parseXDR_def parseXDR_catch_def log_call_def Let_def)

lemma parseXDR_calls:
  "calls (parseXDR sv st) = calls st @ [ParseAuthEntry (trim (importAuthEntryXDR st))]"
  by (simp add: parseXDR_def parseXDR_catch_def log_call_def Let_def split: sum.splits)

lemma autoParse_no_signing:
  "filter signs_or_submits (calls (autoParse sv st)) = filter signs_or_submits (calls st)"
  by (simp add: autoParse_def parseXDR_calls)

text \<open>Under self-play the body throws, and the state it leaves has at most the parse
  call added and the display fields filled.\<close>

lemma import_try_self_play:
  assumes "parseAuthEntry sv (trim (importAuthEntryXDR st)) = Inr gameParams"
    and "player1 gameParams = userAddress st"
  shows "\<exists>st' err. import_try sv st = (st', Inl err)
           \<and> filter signs_or_submits (calls st') = filter signs_or_submits (calls st)
           \<and> gamePhase st' = gamePhase st \<and> currentSessionId st' = currentSessionId st"
  using assms
  by (simp add: import_try_def log_call_def Let_def split: option.splits)

lemma import_try_self_play_message:
  assumes "parseAuthEntry sv (trim (importAuthEntryXDR st)) = Inr gameParams"
    and "player1 gameParams = userAddress st"
    and "trim (importAuthEntryXDR st) \<noteq> []"
    and "trim (importPlayer2Points st) \<noteq> []"
    and "parsePoints (importPlayer2Points st) = Some p" and "0 < p"
  shows "snd (import_try sv st) = Inl (ErrorObject self_play_message)"
  using assms
  by (simp add: import_try_def log_call_def Let_def self_play_message_def)

lemma import_action_self_play:
  assumes "parseAuthEntry sv (trim (importAuthEntryXDR st)) = Inr gameParams"
    and "player1 gameParams = userAddress st"
  shows "error (import_action sv st) \<noteq> None"
    and "filter signs_or_submits (calls (import_action sv st))
           = filter signs_or_submits (calls st)"
    and "gamePhase (import_action sv st) = gamePhase st"
    and "currentSessionId (import_action sv st) = currentSessionId st"
proof -
  let ?st = "st\<lparr>loading := True, error := None, success := None\<rparr>"
  have "parseAuthEntry sv (trim (importAuthEntryXDR ?st)) = Inr gameParams"
    and "player1 gameParams = userAddress ?st"
    using assms by simp_all
  from import_try_self_play [OF this] obtain st' err
    where t: "import_try sv ?st = (st', Inl err)"
      and c: "filter signs_or_submits (calls st') = filter signs_or_submits (calls ?st)"
      and g: "gamePhase st' = gamePhase ?st" "currentSessionId st' = currentSessionId ?st"
    by blast
  have a: "import_action sv st = st'\<lparr>error := Some (import_error_message err), loading := False\<rparr>"
    by (simp add: import_action_def Let_def t)
  show "error (import_action sv st) \<noteq> None"
    and "filter signs_or_submits (calls (import_action sv st))
           = filter signs_or_submits (calls st)"
    and "gamePhase (import_action sv st) = gamePhase st"
    and "currentSessionId (import_action sv st) = currentSessionId st"
    unfolding a using c g by simp_all
qed

lemma self_play_message_kept: "import_error_message (ErrorObject self_play_message) = self_play_message"
  by (simp add: import_error_message_def self_play_message_def)

lemma import_action_self_play_message:
  assumes "parseAuthEntry sv (trim (importAuthEntryXDR st)) = Inr gameParams"
    and "player1 gameParams = userAddress st"
    and "trim (importAuthEntryXDR st) \<noteq> []"
    and "trim (importPlayer2Points st) \<noteq> []"
    and "parsePoints (importPlayer2Points st) = Some p" and "0 < p"
  shows "error (import_action sv st) = Some self_play_message"
proof -
  let ?st = "st\<lparr>loading := True, error := None, success := None\<rparr>"
  have "snd (import_try sv ?st) = Inl (ErrorObject self_play_message)"
    using assms by (intro import_try_self_play_message [where p = p and gameParams = gameParams]) simp_all
  then obtain st' where "import_try sv ?st = (st', Inl (ErrorObject self_play_message))"
    by (cases "import_try sv ?st") simp
  then show ?thesis
    by (simp add: import_action_def Let_def self_play_message_kept)
qed

text \<open>
  C5. When the artifact parses and its Player 1 is the importing user, the auto-parse step
  shows the self-play error, reports no success and clears the fields, and
  \<open>handleImportTransaction\<close>, unless the component is busy and ignores the click, ends
  with an error set; with the artifact and a valid stake entered the error is the one of
  the self-play check. In every case no call that signs or submits is made, the game
  phase stays and the session id of the component is not replaced.
\<close>

theorem self_play_import_rejected:
  assumes "parseAuthEntry sv (trim (importAuthEntryXDR st)) = Inr gameParams"
    and "player1 gameParams = userAddress st"
  shows "(createMode st = ImportMode \<and> trim (importAuthEntryXDR st) \<noteq> [] \<longrightarrow>
            xdrParseError (autoParse sv st)
              = Some ''You cannot play against yourself. This auth entry was created by you (Player 1).''
            \<and> \<not> xdrParseSuccess (autoParse sv st)
            \<and> importPlayer1 (autoParse sv st) = []
            \<and> importSessionId (autoParse sv st) = [])
     \<and> filter signs_or_submits (calls (autoParse sv st)) = filter signs_or_submits (calls st)
     \<and> (\<not> actionLock st \<and> \<not> loading st \<and> \<not> quickstartLoading st \<longrightarrow>
            error (handleImportTransaction sv st) \<noteq> None)
     \<and> (\<not> actionLock st \<and> \<not> loading st \<and> \<not> quickstartLoading st
          \<and> trim (importAuthEntryXDR st) \<noteq> [] \<and> trim (importPlayer2Points st) \<noteq> []
          \<and> parsePoints (importPlayer2Points st) = Some p \<and> 0 < p \<longrightarrow>
            error (handleImportTransaction sv st) = Some self_play_message)
     \<and> filter signs_or_submits (calls (handleImportTransaction sv st))
           = filter signs_or_submits (calls st)
     \<and> gamePhase (handleImportTransaction sv st) = gamePhase st
     \<and> currentSessionId (handleImportTransaction sv st) = currentSessionId st"
proof -
  let ?locked = "st\<lparr>actionLock := True\<rparr>"
  have pre: "parseAuthEntry sv (trim (importAuthEntryXDR ?locked)) = Inr gameParams"
    "player1 gameParams = userAddress ?locked"
    using assms by simp_all
  note act = import_action_self_play [OF pre]
  have auto_parse: "xdrParseError (autoParse sv st)
              = Some ''You cannot play against yourself. This auth entry was created by you (Player 1).''
            \<and> \<not> xdrParseSuccess (autoParse sv st)
            \<and> importPlayer1 (autoParse sv st) = []
            \<and> importSessionId (autoParse sv st) = []"
    if "createMode st = ImportMode" and "trim (importAuthEntryXDR st) \<noteq> []"
    using that parseXDR_self_play [OF assms] by (simp add: autoParse_def)
  have err: "error (handleImportTransaction sv st) \<noteq> None"
    if "\<not> actionLock st" "\<not> loading st" "\<not> quickstartLoading st"
    using that act(1) by (simp add: handleImportTransaction_def runAction_def)
  have msg: "error (handleImportTransaction sv st) = Some self_play_message"
    if "\<not> actionLock st" "\<not> loading st" "\<not> quickstartLoading st"
      and "trim (importAuthEntryXDR st) \<noteq> []" "trim (importPlayer2Points st) \<noteq> []"
      and "parsePoints (importPlayer2Points st) = Some p" "0 < p"
  proof -
    have "error (import_action sv ?locked) = Some self_play_message"
      using that by (intro import_action_self_play_message [OF pre, where p = p]) simp_all
    then show ?thesis
      using that by (simp add: handleImportTransaction_def runAction_def)
  qed
  have nosign: "filter signs_or_submits (calls (handleImportTransaction sv st))
           = filter signs_or_submits (calls st)"
    using act(2) by (simp add: handleImportTransaction_def runAction_def)
  have phase: "gamePhase (handleImportTransaction sv st) = gamePhase st"
    using act(3) by (simp add: handleImportTransaction_def runAction_def)
  have sid: "currentSessionId (handleImportTransaction sv st) = currentSessionId st"
    using act(4) by (simp add: handleImportTransaction_def runAction_def)
  from auto_parse err msg nosign phase sid autoParse_no_signing [of sv st] show ?thesis
    by (intro conjI impI) simp_all
qed

theorem self_play_import_rejected_witness:
  "parseAuthEntry own_artifact (trim (importAuthEntryXDR importing_own))
     = Inr \<lparr>sessionId = 7, player1 = ''GALICE'', player1Points = 1000000\<rparr>
   \<and> userAddress importing_own = ''GALICE''
   \<and> xdrParseError (autoParse own_artifact importing_own)
       = Some ''You cannot play against yourself. This auth entry was created by you (Player 1).''
   \<and> error (handleImportTransaction own_artifact importing_own) = Some self_play_message
   \<and> filter signs_or_submits (calls (handleImportTransaction own_artifact importing_own)) = []
   \<and> gamePhase (handleImportTransaction own_artifact importing_own) = PhaseCreate
   \<and> currentSessionId (handleImportTransaction own_artifact importing_own) = 42"
proof -
  let ?gp = "\<lparr>sessionId = 7, player1 = ''GALICE'', player1Points = 1000000\<rparr>"
  have parse: "parseAuthEntry own_artifact (trim (importAuthEntryXDR importing_own)) = Inr ?gp"
    by (simp add: own_artifact_def)
  have self: "player1 ?gp = userAddress importing_own"
    by (simp add: importing_own_def)
  have xdr: "trim (importAuthEntryXDR importing_own) \<noteq> []"
    by (simp add: importing_own_def trim_def is_space_def)
  have pts: "trim (importPlayer2Points importing_own) \<noteq> []"
    by (simp add: importing_own_def trim_def is_space_def)
  have cleaned: "strip_non_numeric ''0.1'' = ''0.1''"
    by (simp add: strip_non_numeric_def is_digit_def)
  have padded: "take 7 (padEnd 7 CHR ''0'' ''1'') = ''1000000''"
    by (simp add: padEnd_def eval_nat_numeral)
  have big: "BigInt ''01000000'' = Inr 1000000"
    by (simp add: BigInt_def is_digit_def digits_value_def digit_value_def)
  have "parsePoints ''0.1'' = Some 1000000"
    by (simp add: parsePoints_def Let_def cleaned padded big POINTS_DECIMALS_def)
  then have stake: "parsePoints (importPlayer2Points importing_own) = Some 1000000"
    by (simp add: importing_own_def)
  have idle: "\<not> actionLock importing_own" "\<not> loading importing_own"
    "\<not> quickstartLoading importing_own" "createMode importing_own = ImportMode"
    "calls importing_own = []" "gamePhase importing_own = PhaseCreate"
    "currentSessionId importing_own = 42" "userAddress importing_own = ''GALICE''"
    by (simp_all add: importing_own_def)
  show ?thesis
    using self_play_import_rejected [OF parse self, of 1000000] parse xdr pts stake idle
    by simp
qed

section \<open>Which entries injectSignedAuthEntry replaces\<close>

lemma last_index_None: "last_index P xs = None \<longleftrightarrow> (\<forall>x \<in> set xs. \<not> P x)"
  by (induction xs) (auto split: option.splits)

lemma last_index_Some:
  "last_index P xs = Some j \<Longrightarrow>
     j < length xs \<and> P (xs ! j) \<and> (\<forall>k. j < k \<and> k < length xs \<longrightarrow> \<not> P (xs ! k))"
proof (induction xs arbitrary: j)
  case Nil
  then show ?case by simp
next
  case (Cons x xs)
  show ?case
  proof (cases "last_index P xs")
    case None
    then have no: "\<forall>y \<in> set xs. \<not> P y"
      by (simp add: last_index_None)
    from None Cons.prems have j: "j = 0" and px: "P x"
      by (auto split: if_splits)
    have "\<not> P ((x # xs) ! k)" if "0 < k" "k < length (x # xs)" for k
    proof -
      from that obtain k' where "k = Suc k'" and "k' < length xs"
        by (cases k) auto
      with no show ?thesis by simp
    qed
    with j px show ?thesis by simp
  next
    case (Some i)
    with Cons.prems have j: "j = Suc i"
      by simp
    from Cons.IH [OF Some] have i: "i < length xs" "P (xs ! i)"
      and later: "\<forall>k. i < k \<and> k < length xs \<longrightarrow> \<not> P (xs ! k)"
      by simp_all
    have "\<not> P ((x # xs) ! k)" if "Suc i < k" "k < length (x # xs)" for k
    proof -
      from that obtain k' where "k = Suc k'" and "i < k'" and "k' < length xs"
        by (cases k) auto
      with later show ?thesis by simp
    qed
    with j i show ?thesis by simp
  qed
qed

lemma visit_fields:
  "player1StubIndex (visit p1 p2 entry i s)
     = (if is_player1_entry p1 entry then int i else player1StubIndex s)"
  "player2Index (visit p1 p2 entry i s)
     = (if is_player2_entry p1 p2 entry then int i else player2Index s)"
  "player2AuthEntry (visit p1 p2 entry i s)
     = (if is_player2_entry p1 p2 entry then Some entry else player2AuthEntry s)"
  by (auto simp: visit_def entry_address_def is_player1_entry_def is_player2_entry_def
      split: soroban_credentials.splits option.splits)

lemma find_entries_player1:
  "player1StubIndex (find_entries p1 p2 es i s)
     = (case last_index (is_player1_entry p1) es of
          Some j \<Rightarrow> int (i + j)
        | None \<Rightarrow> player1StubIndex s)"
  by (induction es arbitrary: i s) (simp_all add: visit_fields split: option.splits)

lemma find_entries_player2:
  "player2Index (find_entries p1 p2 es i s)
     = (case last_index (is_player2_entry p1 p2) es of
          Some j \<Rightarrow> int (i + j)
        | None \<Rightarrow> player2Index s)"
  "player2AuthEntry (find_entries p1 p2 es i s)
     = (case last_index (is_player2_entry p1 p2) es of
          Some j \<Rightarrow> Some (es ! j)
        | None \<Rightarrow> player2AuthEntry s)"
  by (induction es arbitrary: i s) (simp_all add: visit_fields split: option.splits)

lemma sign_player2_none:
  "player2AuthEntry s = None \<Longrightarrow>
     sign_player2 sdk tx p2 signer validUntilLedgerSeq s es = (es, Inr ())"
  by (simp add: sign_player2_def)

lemma sign_player2_signed:
  assumes "player2AuthEntry s = Some entry" and "player2Index s = int i2"
    and "signAuthEntry signer \<noteq> None"
    and "authValidUntil sdk tx validUntilLedgerSeq = Inr v"
    and "authorizeEntry sdk entry (sign_preimage signer (networkPassphrase tx) p2) v
           (networkPassphrase tx) = Inr signed2"
  shows "sign_player2 sdk tx p2 signer validUntilLedgerSeq s es = (es[i2 := signed2], Inr ())"
  using assms by (simp add: sign_player2_def)

lemma inject_scan:
  assumes "fromXDR sdk xdr = Inr p1signed" and "entry_address p1signed = Some p1"
    and "simulation_auth tx = Some entries"
  shows "injectSignedAuthEntry sdk tx xdr p2 signer validUntilLedgerSeq
     = (let s = find_entries p1 p2 entries 0
                  \<lparr>player1StubIndex = - 1, player2AuthEntry = None, player2Index = - 1\<rparr>
        in if player1StubIndex s = - 1
           then (tx, Inl (ErrorObject ''Could not find Player 1 stub entry in transaction''))
           else (case sign_player2 sdk tx p2 signer validUntilLedgerSeq s
                        (entries[nat (player1StubIndex s) := p1signed]) of
                   (es, outcome) \<Rightarrow> (tx\<lparr>simulation_auth := Some es\<rparr>, outcome)))"
  using assms by (simp add: injectSignedAuthEntry_def)

text \<open>
  C6. With Player 1's artifact decoded to an entry of address \<open>p1\<close> and a simulation
  that has auth entries: when no entry has address credentials for \<open>p1\<close> the call throws
  \<open>Could not find Player 1 stub entry in transaction\<close> and the transaction is as before;
  otherwise the entry replaced by Player 1's signed entry is one with address \<open>p1\<close> (the
  last of them), Player 2's entry, when there is one with address \<open>p2\<close> different from
  \<open>p1\<close>, is replaced by what \<open>authorizeEntry\<close> returns for it with Player 2's wallet as
  signer, and without such an entry nothing is signed; every other entry stays.
\<close>

theorem injectSignedAuthEntry_replaces:
  assumes "fromXDR sdk xdr = Inr p1signed" and "entry_address p1signed = Some p1"
    and "simulation_auth tx = Some entries"
  shows "(last_index (is_player1_entry p1) entries = None \<longleftrightarrow>
            (\<forall>e \<in> set entries. entry_address e \<noteq> Some p1))
     \<and> (last_index (is_player1_entry p1) entries = None \<longrightarrow>
            injectSignedAuthEntry sdk tx xdr p2 signer validUntilLedgerSeq
              = (tx, Inl (ErrorObject ''Could not find Player 1 stub entry in transaction'')))
     \<and> (last_index (is_player1_entry p1) entries = Some i1 \<longrightarrow>
            i1 < length entries \<and> entry_address (entries ! i1) = Some p1
            \<and> (\<forall>k. i1 < k \<and> k < length entries \<longrightarrow> entry_address (entries ! k) \<noteq> Some p1))
     \<and> (last_index (is_player1_entry p1) entries = Some i1
          \<and> last_index (is_player2_entry p1 p2) entries = None \<longrightarrow>
            injectSignedAuthEntry sdk tx xdr p2 signer validUntilLedgerSeq
              = (tx\<lparr>simulation_auth := Some (entries[i1 := p1signed])\<rparr>, Inr ()))
     \<and> (last_index (is_player2_entry p1 p2) entries = Some i2 \<longrightarrow>
            i2 < length entries \<and> entry_address (entries ! i2) = Some p2 \<and> p2 \<noteq> p1)
     \<and> (last_index (is_player1_entry p1) entries = Some i1
          \<and> last_index (is_player2_entry p1 p2) entries = Some i2
          \<and> signAuthEntry signer \<noteq> None
          \<and> authValidUntil sdk tx validUntilLedgerSeq = Inr v
          \<and> authorizeEntry sdk (entries ! i2) (sign_preimage signer (networkPassphrase tx) p2) v
                (networkPassphrase tx) = Inr signed2 \<longrightarrow>
            i1 \<noteq> i2
            \<and> injectSignedAuthEntry sdk tx xdr p2 signer validUntilLedgerSeq
                = (tx\<lparr>simulation_auth := Some (entries[i1 := p1signed, i2 := signed2])\<rparr>, Inr ()))"
proof -
  let ?s = "find_entries p1 p2 entries 0
              \<lparr>player1StubIndex = - 1, player2AuthEntry = None, player2Index = - 1\<rparr>"
  let ?run = "injectSignedAuthEntry sdk tx xdr p2 signer validUntilLedgerSeq"
  note scan = inject_scan [OF assms, of p2 signer validUntilLedgerSeq]
  have none_iff: "last_index (is_player1_entry p1) entries = None \<longleftrightarrow>
            (\<forall>e \<in> set entries. entry_address e \<noteq> Some p1)"
    by (simp add: last_index_None is_player1_entry_def)
  have missing: "?run = (tx, Inl (ErrorObject ''Could not find Player 1 stub entry in transaction''))"
    if "last_index (is_player1_entry p1) entries = None"
  proof -
    have "player1StubIndex ?s = - 1"
      using that by (simp add: find_entries_player1)
    then show ?thesis
      unfolding scan by (simp add: Let_def)
  qed
  have where1: "i1 < length entries \<and> entry_address (entries ! i1) = Some p1
            \<and> (\<forall>k. i1 < k \<and> k < length entries \<longrightarrow> entry_address (entries ! k) \<noteq> Some p1)"
    if "last_index (is_player1_entry p1) entries = Some i1"
    using last_index_Some [OF that] by (simp add: is_player1_entry_def)
  have where2: "i2 < length entries \<and> entry_address (entries ! i2) = Some p2 \<and> p2 \<noteq> p1"
    if "last_index (is_player2_entry p1 p2) entries = Some i2"
    using last_index_Some [OF that] by (simp add: is_player2_entry_def)
  have found1: "player1StubIndex ?s = int i1"
    if "last_index (is_player1_entry p1) entries = Some i1"
    using that by (simp add: find_entries_player1)
  have only1: "?run = (tx\<lparr>simulation_auth := Some (entries[i1 := p1signed])\<rparr>, Inr ())"
    if one: "last_index (is_player1_entry p1) entries = Some i1"
      and two: "last_index (is_player2_entry p1 p2) entries = None"
  proof -
    have "player2AuthEntry ?s = None"
      using two by (simp add: find_entries_player2)
    from sign_player2_none [OF this]
    have "sign_player2 sdk tx p2 signer validUntilLedgerSeq ?s (entries[i1 := p1signed])
            = (entries[i1 := p1signed], Inr ())" .
    then show ?thesis
      unfolding scan using found1 [OF one] by (simp add: Let_def)
  qed
  have both: "i1 \<noteq> i2
            \<and> ?run = (tx\<lparr>simulation_auth := Some (entries[i1 := p1signed, i2 := signed2])\<rparr>, Inr ())"
    if one: "last_index (is_player1_entry p1) entries = Some i1"
      and two: "last_index (is_player2_entry p1 p2) entries = Some i2"
      and wallet: "signAuthEntry signer \<noteq> None"
      and until: "authValidUntil sdk tx validUntilLedgerSeq = Inr v"
      and signed: "authorizeEntry sdk (entries ! i2)
                     (sign_preimage signer (networkPassphrase tx) p2) v (networkPassphrase tx)
                   = Inr signed2"
  proof -
    have "entry_address (entries ! i1) = Some p1" and "entry_address (entries ! i2) = Some p2"
      and "p2 \<noteq> p1"
      using where1 [OF one] where2 [OF two] by simp_all
    then have neq: "i1 \<noteq> i2"
      by auto
    have e2: "player2AuthEntry ?s = Some (entries ! i2)" and x2: "player2Index ?s = int i2"
      using two by (simp_all add: find_entries_player2)
    from sign_player2_signed [OF e2 x2 wallet until signed]
    have "sign_player2 sdk tx p2 signer validUntilLedgerSeq ?s (entries[i1 := p1signed])
            = (entries[i1 := p1signed, i2 := signed2], Inr ())" .
    then have "?run = (tx\<lparr>simulation_auth := Some (entries[i1 := p1signed, i2 := signed2])\<rparr>, Inr ())"
      unfolding scan using found1 [OF one] by (simp add: Let_def)
    with neq show ?thesis
      by simp
  qed
  have c2: "last_index (is_player1_entry p1) entries = None \<longrightarrow>
            ?run = (tx, Inl (ErrorObject ''Could not find Player 1 stub entry in transaction''))"
    using missing by (rule impI)
  have c3: "last_index (is_player1_entry p1) entries = Some i1 \<longrightarrow>
            i1 < length entries \<and> entry_address (entries ! i1) = Some p1
            \<and> (\<forall>k. i1 < k \<and> k < length entries \<longrightarrow> entry_address (entries ! k) \<noteq> Some p1)"
    using where1 by (rule impI)
  have c4: "last_index (is_player1_entry p1) entries = Some i1
          \<and> last_index (is_player2_entry p1 p2) entries = None \<longrightarrow>
            ?run = (tx\<lparr>simulation_auth := Some (entries[i1 := p1signed])\<rparr>, Inr ())"
  proof
    assume "last_index (is_player1_entry p1) entries = Some i1
          \<and> last_index (is_player2_entry p1 p2) entries = None"
    then show "?run = (tx\<lparr>simulation_auth := Some (entries[i1 := p1signed])\<rparr>, Inr ())"
      using only1 by (elim conjE)
  qed
  have c5: "last_index (is_player2_entry p1 p2) entries = Some i2 \<longrightarrow>
            i2 < length entries \<and> entry_address (entries ! i2) = Some p2 \<and> p2 \<noteq> p1"
    using where2 by (rule impI)
  have c6: "last_index (is_player1_entry p1) entries = Some i1
          \<and> last_index (is_player2_entry p1 p2) entries = Some i2
          \<and> signAuthEntry signer \<noteq> None
          \<and> authValidUntil sdk tx validUntilLedgerSeq = Inr v
          \<and> authorizeEntry sdk (entries ! i2) (sign_preimage signer (networkPassphrase tx) p2) v
                (networkPassphrase tx) = Inr signed2 \<longrightarrow>
            i1 \<noteq> i2
            \<and> ?run = (tx\<lparr>simulation_auth := Some (entries[i1 := p1signed, i2 := signed2])\<rparr>, Inr ())"
  proof
    assume "last_index (is_player1_entry p1) entries = Some i1
          \<and> last_index (is_player2_entry p1 p2) entries = Some i2
          \<and> signAuthEntry signer \<noteq> None
          \<and> authValidUntil sdk tx validUntilLedgerSeq = Inr v
          \<and> authorizeEntry sdk (entries ! i2) (sign_preimage signer (networkPassphrase tx) p2) v
                (networkPassphrase tx) = Inr signed2"
    then show "i1 \<noteq> i2
            \<and> ?run = (tx\<lparr>simulation_auth := Some (entries[i1 := p1signed, i2 := signed2])\<rparr>, Inr ())"
      using both by (elim conjE)
  qed
  show ?thesis
    by (intro conjI) (fact none_iff c2 c3 c4 c5 c6)+
qed

theorem injectSignedAuthEntry_replaces_witness:
  "injectSignedAuthEntry handshake_sdk (handshake_tx [source_entry, stub ''P1'', stub ''P2''])
       ''XDR'' ''P2'' player2_wallet (Some 2000)
     = (handshake_tx
          [source_entry, player1_signed,
           \<lparr>credentials = SorobanCredentialsAddress (Some ''P2'') ''SIG2'',
            rootInvocation = ''start_game''\<rparr>],
        Inr ())
   \<and> injectSignedAuthEntry handshake_sdk (handshake_tx [source_entry, stub ''P3''])
       ''XDR'' ''P2'' player2_wallet (Some 2000)
     = (handshake_tx [source_entry, stub ''P3''],
        Inl (ErrorObject ''Could not find Player 1 stub entry in transaction''))
   \<and> injectSignedAuthEntry handshake_sdk (handshake_tx [stub ''P1'', source_entry])
       ''XDR'' ''P2'' player2_wallet None
     = (handshake_tx [player1_signed, source_entry], Inr ())"
proof -
  let ?np = "''Test SDF Network ; September 2015''"
  let ?signed2 = "\<lparr>credentials = SorobanCredentialsAddress (Some ''P2'') ''SIG2'',
                   rootInvocation = ''start_game''\<rparr>"
  have xdr: "fromXDR handshake_sdk ''XDR'' = Inr player1_signed"
    by (simp add: handshake_sdk_def)
  have p1: "entry_address player1_signed = Some ''P1''"
    by (simp add: entry_address_def player1_signed_def)
  have auth: "simulation_auth (handshake_tx es) = Some es" for es
    by (simp add: handshake_tx_def)
  have tx: "(handshake_tx es)\<lparr>simulation_auth := Some es'\<rparr> = handshake_tx es'" for es es'
    by (simp add: handshake_tx_def)
  have np: "networkPassphrase (handshake_tx es) = ?np" for es
    by (simp add: handshake_tx_def)
  have addr: "entry_address (stub a) = Some a" "entry_address source_entry = None" for a
    by (simp_all add: entry_address_def stub_def source_entry_def)
  have a1: "last_index (is_player1_entry ''P1'') [source_entry, stub ''P1'', stub ''P2''] = Some (Suc 0)"
    and a2: "last_index (is_player2_entry ''P1'' ''P2'') [source_entry, stub ''P1'', stub ''P2'']
               = Some (Suc (Suc 0))"
    by (simp_all add: is_player1_entry_def is_player2_entry_def addr)
  have b1: "last_index (is_player1_entry ''P1'') [source_entry, stub ''P3''] = None"
    by (simp add: is_player1_entry_def addr)
  have c1: "last_index (is_player1_entry ''P1'') [stub ''P1'', source_entry] = Some 0"
    and c2: "last_index (is_player2_entry ''P1'' ''P2'') [stub ''P1'', source_entry] = None"
    by (simp_all add: is_player1_entry_def is_player2_entry_def addr)
  have wallet: "signAuthEntry player2_wallet \<noteq> None"
    by (simp add: player2_wallet_def)
  have until: "authValidUntil handshake_sdk (handshake_tx es) (Some 2000) = Inr 2000" for es
    by (simp add: authValidUntil_def)
  have sign: "authorizeEntry handshake_sdk ([source_entry, stub ''P1'', stub ''P2''] ! Suc (Suc 0))
                (sign_preimage player2_wallet ?np ''P2'') 2000 ?np = Inr ?signed2"
    by (simp add: handshake_sdk_def sign_preimage_def player2_wallet_def stub_def
        entry_address_def Let_def)
  have both: "injectSignedAuthEntry handshake_sdk (handshake_tx [source_entry, stub ''P1'', stub ''P2''])
       ''XDR'' ''P2'' player2_wallet (Some 2000)
     = (handshake_tx [source_entry, player1_signed, ?signed2], Inr ())"
    using injectSignedAuthEntry_replaces
        [OF xdr p1 auth [of "[source_entry, stub ''P1'', stub ''P2'']"],
         where ?i1.0 = "Suc 0" and ?p2.0 = "''P2''" and signer = player2_wallet
           and validUntilLedgerSeq = "Some 2000" and ?i2.0 = "Suc (Suc 0)" and v = 2000
           and ?signed2.0 = ?signed2]
      a1 a2 wallet until sign
    by (simp add: np tx)
  have missing: "injectSignedAuthEntry handshake_sdk (handshake_tx [source_entry, stub ''P3''])
       ''XDR'' ''P2'' player2_wallet (Some 2000)
     = (handshake_tx [source_entry, stub ''P3''],
        Inl (ErrorObject ''Could not find Player 1 stub entry in transaction''))"
    using injectSignedAuthEntry_replaces
        [OF xdr p1 auth [of "[source_entry, stub ''P3'']"],
         where ?i1.0 = 0 and ?p2.0 = "''P2''" and signer = player2_wallet
           and validUntilLedgerSeq = "Some 2000" and ?i2.0 = 0 and v = 0
           and ?signed2.0 = ?signed2]
      b1
    by simp
  have only1: "injectSignedAuthEntry handshake_sdk (handshake_tx [stub ''P1'', source_entry])
       ''XDR'' ''P2'' player2_wallet None
     = (handshake_tx [player1_signed, source_entry], Inr ())"
    using injectSignedAuthEntry_replaces
        [OF xdr p1 auth [of "[stub ''P1'', source_entry]"],
         where ?i1.0 = 0 and ?p2.0 = "''P2''" and signer = player2_wallet
           and validUntilLedgerSeq = None and ?i2.0 = 0 and v = 0
           and ?signed2.0 = ?signed2]
      c1 c2
    by (simp add: tx)
  from both missing only1 show ?thesis
    by simp
qed

end
